theory Spec2Isabelle
  imports Complex_Main
begin

section \<open>Arrays and errors\<close>

text \<open>
  The library works on NumPy arrays of \<open>float64\<close>. The embedding takes the entries as
  real numbers: every sum, product and quotient is exact, and a comparison against a
  tolerance is a comparison of reals. A vector is a list; a matrix of shape \<open>(n, m)\<close> is
  a list of \<open>n\<close> rows of length \<open>m\<close>. An array without rows is the empty list, so its
  number of columns is taken to be \<open>0\<close>.

  Python exceptions are values of \<open>py_error\<close>. A message built by an f-string keeps its
  fixed text; the interpolated shapes and arrays are left out. \<open>NonFinite\<close> is not an
  exception: where \<open>normalize_allocation\<close> divides a column by a zero sum, NumPy does not
  raise and fills the column with \<open>inf\<close> or \<open>nan\<close>, which a matrix of reals cannot
  hold, so the embedding stops there with this value.

  What the embedding does not cover is the rounding and the overflow of \<open>float64\<close>: a
  statement that bounds a rounding error, or that depends on a sum overflowing to
  \<open>inf\<close>, is outside it.
\<close>

type_synonym vector = "real list"
type_synonym matrix = "real list list"

datatype py_error =
    ValueError string
  | RuntimeError string
  | ZeroDivisionError
  | OverflowError
  | NonFinite

definition n_agents_of :: "matrix \<Rightarrow> nat" where
  "n_agents_of A = length A"

definition n_goods_of :: "matrix \<Rightarrow> nat" where
  "n_goods_of A = (case A of [] \<Rightarrow> 0 | r # _ \<Rightarrow> length r)"

definition is_matrix :: "nat \<Rightarrow> nat \<Rightarrow> matrix \<Rightarrow> bool" where
  "is_matrix n m A \<longleftrightarrow> length A = n \<and> list_all (\<lambda>r. length r = m) A \<and> (0 < n \<or> m = 0)"

definition column :: "matrix \<Rightarrow> nat \<Rightarrow> vector" where
  \<comment> \<open>\<open>A[:, j]\<close>\<close>
  "column A j = map (\<lambda>r. r ! j) A"

definition col_sums :: "matrix \<Rightarrow> vector" where
  \<comment> \<open>\<open>A.sum(axis=0)\<close>\<close>
  "col_sums A = map (\<lambda>j. sum_list (column A j)) [0..<n_goods_of A]"

definition dot :: "vector \<Rightarrow> vector \<Rightarrow> real" where
  \<comment> \<open>\<open>(u * v).sum()\<close> for two vectors of one length\<close>
  "dot u v = sum_list (map2 (*) u v)"

definition row_utilities :: "matrix \<Rightarrow> matrix \<Rightarrow> vector" where
  \<comment> \<open>\<open>(allocation * utilities).sum(axis=1)\<close>\<close>
  "row_utilities A U = map2 dot A U"

definition zeros2 :: "nat \<Rightarrow> nat \<Rightarrow> matrix" where
  "zeros2 n m = replicate n (replicate m 0)"

definition any_less :: "matrix \<Rightarrow> real \<Rightarrow> bool" where
  \<comment> \<open>\<open>np.any(A < c)\<close>\<close>
  "any_less A c = list_ex (\<lambda>r. list_ex (\<lambda>x. x < c) r) A"

definition np_rtol :: real where
  \<comment> \<open>the default relative tolerance of \<open>np.allclose\<close>\<close>
  "np_rtol = 1 / 10 ^ 5"

definition np_isclose :: "real \<Rightarrow> real \<Rightarrow> real \<Rightarrow> bool" where
  \<comment> \<open>\<open>np.isclose(a, b, atol=atol)\<close>: \<open>|a - b| <= atol + rtol * |b|\<close>\<close>
  "np_isclose a b atol \<longleftrightarrow> \<bar>a - b\<bar> \<le> atol + np_rtol * \<bar>b\<bar>"

definition np_allclose_scalar :: "vector \<Rightarrow> real \<Rightarrow> real \<Rightarrow> bool" where
  \<comment> \<open>\<open>np.allclose(v, b, atol=atol)\<close> against a scalar \<open>b\<close>\<close>
  "np_allclose_scalar v b atol = list_all (\<lambda>a. np_isclose a b atol) v"

definition np_allclose :: "vector \<Rightarrow> vector \<Rightarrow> real \<Rightarrow> bool" where
  \<comment> \<open>\<open>np.allclose(u, v, atol=atol)\<close> for two vectors of one length\<close>
  "np_allclose u v atol = list_all (\<lambda>(a, b). np_isclose a b atol) (zip u v)"

section \<open>models.py: AllocationResult\<close>

datatype meta_value =
    M_real real
  | M_vector vector
  | M_str string
  | M_bool bool
  | M_nat nat
  | M_none

record AllocationResult =
  ar_allocation :: matrix
  ar_utilities :: vector
  ar_objective_value :: real
  ar_solver_status :: string
  ar_solve_time :: real
  ar_metadata :: "(string \<times> meta_value) list"

definition post_init :: "AllocationResult \<Rightarrow> py_error + AllocationResult" where
  \<comment> \<open>\<open>AllocationResult.__post_init__\<close>: the three checks, in the order of the source\<close>
  "post_init r =
     (if any_less (ar_allocation r) (- (1 / 10 ^ 9)) then
        Inl (ValueError ''Allocation contains negative values'')
      else if \<not> np_allclose_scalar (col_sums (ar_allocation r)) 1 (1 / 10 ^ 6) then
        Inl (ValueError ''Goods not fully allocated. Column sums: '')
      else if length (ar_utilities r) \<noteq> n_agents_of (ar_allocation r) then
        Inl (ValueError ''Utilities shape doesn't match n_agents'')
      else Inr r)"

definition new_AllocationResult ::
  "matrix \<Rightarrow> vector \<Rightarrow> real \<Rightarrow> string \<Rightarrow> real \<Rightarrow> (string \<times> meta_value) list
     \<Rightarrow> py_error + AllocationResult" where
  \<comment> \<open>the dataclass constructor: the fields are stored, then \<open>__post_init__\<close> runs\<close>
  "new_AllocationResult alloc utils obj status secs meta =
     post_init \<lparr>ar_allocation = alloc, ar_utilities = utils, ar_objective_value = obj,
                ar_solver_status = status, ar_solve_time = secs, ar_metadata = meta\<rparr>"

section \<open>maxmin\_solver.py: the linear program and the return policy\<close>

text \<open>
  The LP engine (OR-Tools GLOP) is outside the library. The embedding records the program
  that \<open>solve_maxmin_allocation\<close> builds, variable by variable and constraint by
  constraint, hands it to the engine, and reads back the status, the solution values and
  the elapsed time. The engine is a parameter; \<open>None\<close> stands for \<open>CreateSolver\<close>
  returning no solver.
\<close>

datatype lp_status = OPTIMAL | FEASIBLE | INFEASIBLE | UNBOUNDED | ABNORMAL | MODEL_INVALID | NOT_SOLVED

datatype lp_var = X nat nat | T_min

record lp_numvar =
  var_id :: lp_var
  var_lb :: real
  var_ub :: "real option"   \<comment> \<open>\<open>None\<close> is \<open>solver.infinity()\<close>\<close>

record lp_constraint =
  con_lb :: real
  con_ub :: "real option"
  con_coeffs :: "(lp_var \<times> real) list"

record lp_model =
  lp_time_limit_ms :: int
  lp_vars :: "lp_numvar list"
  lp_objective :: "(lp_var \<times> real) list"
  lp_maximize :: bool
  lp_constraints :: "lp_constraint list"

record lp_outcome =
  out_status :: lp_status
  out_x :: "nat \<Rightarrow> nat \<Rightarrow> real"   \<comment> \<open>\<open>x[i, j].solution_value()\<close>\<close>
  out_t :: real                   \<comment> \<open>\<open>t.solution_value()\<close>\<close>
  out_seconds :: real             \<comment> \<open>the two \<open>time.time()\<close> readings, subtracted\<close>

type_synonym lp_engine = "lp_model \<Rightarrow> lp_outcome"

definition py_int :: "real \<Rightarrow> int" where
  \<comment> \<open>\<open>int(x)\<close> of a float: truncation towards zero\<close>
  "py_int x = (if 0 \<le> x then \<lfloor>x\<rfloor> else \<lceil>x\<rceil>)"

definition maxmin_variables :: "nat \<Rightarrow> nat \<Rightarrow> real \<Rightarrow> lp_numvar list" where
  "maxmin_variables n m epsilon =
     concat (map (\<lambda>i. map (\<lambda>j. \<lparr>var_id = X i j, var_lb = 0, var_ub = Some 1\<rparr>) [0..<m]) [0..<n])
     @ [\<lparr>var_id = T_min, var_lb = epsilon, var_ub = None\<rparr>]"

definition maxmin_agent_constraint :: "matrix \<Rightarrow> vector \<Rightarrow> nat \<Rightarrow> nat \<Rightarrow> lp_constraint" where
  \<comment> \<open>\<open>sum_j u[i,j] * x[i,j] - w[i] * t >= 0\<close>\<close>
  "maxmin_agent_constraint U w m i =
     \<lparr>con_lb = 0, con_ub = None,
      con_coeffs = map (\<lambda>j. (X i j, U ! i ! j)) [0..<m] @ [(T_min, - (w ! i))]\<rparr>"

definition maxmin_good_constraint :: "nat \<Rightarrow> nat \<Rightarrow> lp_constraint" where
  \<comment> \<open>\<open>sum_i x[i,j] = 1\<close>\<close>
  "maxmin_good_constraint n j =
     \<lparr>con_lb = 1, con_ub = Some 1, con_coeffs = map (\<lambda>i. (X i j, 1)) [0..<n]\<rparr>"

definition maxmin_lp :: "matrix \<Rightarrow> vector \<Rightarrow> real \<Rightarrow> real \<Rightarrow> lp_model" where
  "maxmin_lp U w epsilon time_limit_seconds =
     (let n = n_agents_of U; m = n_goods_of U in
      \<lparr>lp_time_limit_ms = py_int (time_limit_seconds * 1000),
       lp_vars = maxmin_variables n m epsilon,
       lp_objective = [(T_min, 1)],
       lp_maximize = True,
       lp_constraints = map (maxmin_agent_constraint U w m) [0..<n]
                        @ map (maxmin_good_constraint n) [0..<m]\<rparr>)"

definition solve_maxmin_allocation ::
  "lp_engine option \<Rightarrow> matrix \<Rightarrow> vector \<Rightarrow> real \<Rightarrow> real \<Rightarrow> py_error + AllocationResult" where
  "solve_maxmin_allocation engine utilities entitlements epsilon time_limit_seconds =
     (let n_agents = n_agents_of utilities; n_goods = n_goods_of utilities in
      if length entitlements \<noteq> n_agents then
        Inl (ValueError ''entitlements shape doesn't match n_agents'')
      else if any_less utilities 0 then
        Inl (ValueError ''Utilities must be non-negative'')
      else if list_ex (\<lambda>w. w \<le> 0) entitlements then
        Inl (ValueError ''Entitlements must be strictly positive'')
      else if epsilon \<le> 0 then
        Inl (ValueError ''epsilon must be positive'')
      else
        (case engine of
           None \<Rightarrow> Inl (RuntimeError ''Could not create OR-Tools solver'')
         | Some solve \<Rightarrow>
             if py_int (time_limit_seconds * 1000) < - (2 ^ 63)
                \<or> 2 ^ 63 \<le> py_int (time_limit_seconds * 1000) then
               Inl OverflowError   \<comment> \<open>\<open>SetTimeLimit\<close> takes a 64-bit integer\<close>
             else
             (let out = solve (maxmin_lp utilities entitlements epsilon time_limit_seconds) in
              if out_status out \<noteq> OPTIMAL \<and> out_status out \<noteq> FEASIBLE then
                new_AllocationResult (zeros2 n_agents n_goods) (replicate n_agents 0) 0
                  ''infeasible'' (out_seconds out)
                  [(''error'', M_str ''No feasible solution found'')]
              else
                (let solver_status = (if out_status out = OPTIMAL then ''optimal'' else ''feasible'');
                     allocation = map (\<lambda>i. map (\<lambda>j. out_x out i j) [0..<n_goods]) [0..<n_agents];
                     realized_utilities = row_utilities allocation utilities;
                     objective_value = out_t out
                 in new_AllocationResult allocation realized_utilities objective_value
                      solver_status (out_seconds out)
                      [(''min_normalized_utility'', M_real objective_value),
                       (''normalized_utilities'', M_vector (map2 (/) realized_utilities entitlements)),
                       (''algorithm'', M_str ''max_min_egalitarian'')]))))"

section \<open>nash\_solver.py: the concave program and the return policy\<close>

text \<open>
  The NLP engine is \<open>scipy.optimize.minimize\<close> with method SLSQP. The embedding builds
  the argument of that call (objective, gradient, the linear and the nonlinear constraint,
  bounds, initial guess, options) and reads the fields of the returned result. The engine
  is a parameter.
\<close>

datatype opt_value = O_int int | O_real real | O_bool bool

record nlp_problem =
  nlp_objective :: "vector \<Rightarrow> real"
  nlp_x0 :: vector
  nlp_jac :: "vector \<Rightarrow> vector"
  nlp_A_eq :: matrix
  nlp_b_lo :: vector
  nlp_b_hi :: vector
  nlp_con_fun :: "vector \<Rightarrow> vector"
  nlp_con_lb :: vector
  nlp_con_ub :: "real option list"   \<comment> \<open>\<open>None\<close> is \<open>np.inf\<close>\<close>
  nlp_con_jac :: "vector \<Rightarrow> matrix"
  nlp_bounds :: "(real \<times> real) list"
  nlp_options :: "string \<rightharpoonup> opt_value"

record nlp_result =
  res_x :: vector
  res_fun :: real
  res_success :: bool
  res_message :: string
  res_nit :: "nat option"     \<comment> \<open>\<open>None\<close> when the result has no attribute \<open>nit\<close>\<close>
  res_seconds :: real

type_synonym nlp_engine = "nlp_problem \<Rightarrow> nlp_result"

definition unflatten :: "nat \<Rightarrow> nat \<Rightarrow> vector \<Rightarrow> matrix" where
  \<comment> \<open>\<open>x_flat.reshape((n_agents, n_goods))\<close> on a vector of \<open>n_agents * n_goods\<close> entries\<close>
  "unflatten n m x = map (\<lambda>i. take m (drop (i * m) x)) [0..<n]"

definition flatten :: "matrix \<Rightarrow> vector" where
  "flatten A = concat A"

definition nash_objective :: "matrix \<Rightarrow> vector \<Rightarrow> real \<Rightarrow> vector \<Rightarrow> real" where
  "nash_objective utilities weights epsilon x_flat =
     (let x = unflatten (n_agents_of utilities) (n_goods_of utilities) x_flat;
          agent_utilities = map (\<lambda>u. max u epsilon) (row_utilities x utilities);
          nash_welfare = sum_list (map2 (\<lambda>w u. w * ln u) weights agent_utilities)
      in - nash_welfare)"

definition nash_objective_grad :: "matrix \<Rightarrow> vector \<Rightarrow> real \<Rightarrow> vector \<Rightarrow> vector" where
  "nash_objective_grad utilities weights epsilon x_flat =
     (let x = unflatten (n_agents_of utilities) (n_goods_of utilities) x_flat;
          agent_utilities = map (\<lambda>u. max u epsilon) (row_utilities x utilities);
          grad_matrix = map (\<lambda>i. map (\<lambda>u. weights ! i * u / agent_utilities ! i) (utilities ! i))
                          [0..<n_agents_of utilities]
      in map uminus (flatten grad_matrix))"

definition index_pairs :: "nat \<Rightarrow> nat \<Rightarrow> (nat \<times> nat) list" where
  \<comment> \<open>the pairs visited by \<open>for a in range(p): for b in range(q)\<close>, in order\<close>
  "index_pairs p q = concat (map (\<lambda>a. map (\<lambda>b. (a, b)) [0..<q]) [0..<p])"

definition set_entry :: "matrix \<Rightarrow> nat \<Rightarrow> nat \<Rightarrow> real \<Rightarrow> matrix" where
  \<comment> \<open>\<open>A[r, c] = v\<close> with both indices in range\<close>
  "set_entry A r c v = A[r := (A ! r)[c := v]]"

definition nash_A_eq :: "nat \<Rightarrow> nat \<Rightarrow> matrix" where
  "nash_A_eq n m =
     fold (\<lambda>(j, i) A. set_entry A j (i * m + j) 1) (index_pairs m n) (zeros2 m (n * m))"

definition utility_constraints :: "matrix \<Rightarrow> vector \<Rightarrow> vector" where
  "utility_constraints utilities x_flat =
     row_utilities (unflatten (n_agents_of utilities) (n_goods_of utilities) x_flat) utilities"

definition utility_constraints_jac :: "matrix \<Rightarrow> vector \<Rightarrow> matrix" where
  "utility_constraints_jac utilities x_flat =
     (let n = n_agents_of utilities; m = n_goods_of utilities in
      fold (\<lambda>(i, j) J. set_entry J i (i * m + j) (utilities ! i ! j)) (index_pairs n m)
        (zeros2 n (n * m)))"

definition nash_options :: "(string \<times> opt_value) list \<Rightarrow> (string \<rightharpoonup> opt_value)" where
  "nash_options solver_options =
     (let max_iter = (case map_of solver_options ''maxiter'' of None \<Rightarrow> O_int 1000 | Some v \<Rightarrow> v)
      in [''maxiter'' \<mapsto> max_iter, ''disp'' \<mapsto> O_bool False, ''ftol'' \<mapsto> O_real (1 / 10 ^ 9)]
         ++ map_of solver_options)"

definition nash_problem ::
  "matrix \<Rightarrow> vector \<Rightarrow> real \<Rightarrow> (string \<times> opt_value) list \<Rightarrow> nlp_problem" where
  \<comment> \<open>built after validation, for at least one agent\<close>
  "nash_problem utilities entitlements epsilon solver_options =
     (let n = n_agents_of utilities; m = n_goods_of utilities;
          weights = map (\<lambda>w. w / sum_list entitlements) entitlements
      in \<lparr>nlp_objective = nash_objective utilities weights epsilon,
          nlp_x0 = replicate (n * m) (1 / real n),
          nlp_jac = nash_objective_grad utilities weights epsilon,
          nlp_A_eq = nash_A_eq n m,
          nlp_b_lo = replicate m 1,
          nlp_b_hi = replicate m 1,
          nlp_con_fun = utility_constraints utilities,
          nlp_con_lb = replicate n epsilon,
          nlp_con_ub = replicate n None,
          nlp_con_jac = utility_constraints_jac utilities,
          nlp_bounds = replicate (n * m) (0, 1),
          nlp_options = nash_options solver_options\<rparr>)"

definition solve_nash_allocation ::
  "nlp_engine \<Rightarrow> matrix \<Rightarrow> vector \<Rightarrow> real \<Rightarrow> real \<Rightarrow> (string \<times> opt_value) list option
     \<Rightarrow> py_error + AllocationResult" where
  "solve_nash_allocation minimize utilities entitlements epsilon time_limit_seconds solver_options =
     (let n_agents = n_agents_of utilities; n_goods = n_goods_of utilities in
      if length entitlements \<noteq> n_agents then
        Inl (ValueError ''entitlements shape doesn't match n_agents'')
      else if any_less utilities 0 then
        Inl (ValueError ''Utilities must be non-negative'')
      else if list_ex (\<lambda>w. w \<le> 0) entitlements then
        Inl (ValueError ''Entitlements must be strictly positive'')
      else if epsilon \<le> 0 then
        Inl (ValueError ''epsilon must be positive'')
      else if n_agents = 0 then
        Inl ZeroDivisionError   \<comment> \<open>\<open>1.0 / n_agents\<close> in the initial guess\<close>
      else
        (let opts = (case solver_options of None \<Rightarrow> [] | Some d \<Rightarrow> d);
             result = minimize (nash_problem utilities entitlements epsilon opts)
         in if length (res_x result) \<noteq> n_agents * n_goods then
              Inl (ValueError ''cannot reshape array'')
            else
              (let x_opt = unflatten n_agents n_goods (res_x result);
                   agent_utilities = row_utilities x_opt utilities;
                   objective_value = - res_fun result;
                   solver_status = (if res_success result then ''optimal'' else ''feasible'');
                   nash_product = exp objective_value
               in new_AllocationResult x_opt agent_utilities objective_value solver_status
                    (res_seconds result)
                    [(''log_nash_welfare'', M_real objective_value),
                     (''nash_product'', M_real nash_product),
                     (''algorithm'', M_str ''nash_social_welfare''),
                     (''scipy_message'', M_str (res_message result)),
                     (''scipy_success'', M_bool (res_success result)),
                     (''iterations'', (case res_nit result of None \<Rightarrow> M_none | Some k \<Rightarrow> M_nat k))])))"

section \<open>diagnostics.py\<close>

text \<open>
  The diagnostics are followed on arguments of matching shapes: \<open>allocation\<close> and
  \<open>utilities\<close> of one shape \<open>(n, m)\<close> and \<open>entitlements\<close> of length \<open>n\<close>. What NumPy's
  broadcasting does with other shapes is not part of the embedding.
\<close>

definition np_min :: "vector \<Rightarrow> py_error + real" where
  \<comment> \<open>\<open>v.min()\<close>; NumPy refuses an empty array\<close>
  "np_min v = (case v of
       [] \<Rightarrow> Inl (ValueError ''zero-size array to reduction operation minimum which has no identity'')
     | x # xs \<Rightarrow> Inr (fold min xs x))"

definition np_max :: "vector \<Rightarrow> py_error + real" where
  "np_max v = (case v of
       [] \<Rightarrow> Inl (ValueError ''zero-size array to reduction operation maximum which has no identity'')
     | x # xs \<Rightarrow> Inr (fold max xs x))"

text \<open>
  A division by a zero sum of entitlements does not raise in NumPy: it yields \<open>inf\<close>,
  \<open>-inf\<close> or \<open>nan\<close>, and the report is built from these. The values that can be
  affected are carried as \<open>np_float\<close>, the reals with the three special values and the
  IEEE rules for them.
\<close>

datatype np_float = Finite real | PosInf | NegInf | NaN

definition np_div :: "real \<Rightarrow> real \<Rightarrow> np_float" where
  \<comment> \<open>\<open>x / y\<close> on two finite values\<close>
  "np_div x y =
     (if y \<noteq> 0 then Finite (x / y)
      else if 0 < x then PosInf else if x < 0 then NegInf else NaN)"

fun np_sign :: "np_float \<Rightarrow> real" where
  "np_sign (Finite x) = sgn x"
| "np_sign PosInf = 1"
| "np_sign NegInf = - 1"
| "np_sign NaN = 0"

fun np_mul :: "np_float \<Rightarrow> np_float \<Rightarrow> np_float" where
  "np_mul (Finite x) (Finite y) = Finite (x * y)"
| "np_mul NaN b = NaN"
| "np_mul a NaN = NaN"
| "np_mul a b =
     (if np_sign a * np_sign b = 0 then NaN
      else if 0 < np_sign a * np_sign b then PosInf else NegInf)"

fun np_neg :: "np_float \<Rightarrow> np_float" where
  "np_neg (Finite x) = Finite (- x)"
| "np_neg PosInf = NegInf"
| "np_neg NegInf = PosInf"
| "np_neg NaN = NaN"

fun np_add :: "np_float \<Rightarrow> np_float \<Rightarrow> np_float" where
  "np_add (Finite x) (Finite y) = Finite (x + y)"
| "np_add NaN b = NaN"
| "np_add a NaN = NaN"
| "np_add PosInf NegInf = NaN"
| "np_add NegInf PosInf = NaN"
| "np_add PosInf b = PosInf"
| "np_add a PosInf = PosInf"
| "np_add NegInf b = NegInf"
| "np_add a NegInf = NegInf"

definition np_sub :: "np_float \<Rightarrow> np_float \<Rightarrow> np_float" where
  "np_sub a b = np_add a (np_neg b)"

definition np_fsum :: "np_float list \<Rightarrow> np_float" where
  \<comment> \<open>\<open>v.sum()\<close>\<close>
  "np_fsum v = fold (\<lambda>x acc. np_add acc x) v (Finite 0)"

fun np_exp :: "np_float \<Rightarrow> np_float" where
  "np_exp (Finite x) = Finite (exp x)"
| "np_exp PosInf = PosInf"
| "np_exp NegInf = Finite 0"
| "np_exp NaN = NaN"

fun np_ge :: "np_float \<Rightarrow> real \<Rightarrow> bool" where
  \<comment> \<open>\<open>a >= c\<close>; every comparison with \<open>nan\<close> is false\<close>
  "np_ge (Finite x) c = (c \<le> x)"
| "np_ge PosInf c = True"
| "np_ge NegInf c = False"
| "np_ge NaN c = False"

fun np_fmin2 :: "np_float \<Rightarrow> np_float \<Rightarrow> np_float" where
  "np_fmin2 (Finite x) (Finite y) = Finite (min x y)"
| "np_fmin2 NaN b = NaN"
| "np_fmin2 a NaN = NaN"
| "np_fmin2 NegInf b = NegInf"
| "np_fmin2 a NegInf = NegInf"
| "np_fmin2 PosInf b = b"
| "np_fmin2 a PosInf = a"

definition np_fmin :: "np_float list \<Rightarrow> py_error + np_float" where
  \<comment> \<open>\<open>v.min()\<close>, which lets \<open>nan\<close> through\<close>
  "np_fmin v = (case v of
       [] \<Rightarrow> Inl (ValueError ''zero-size array to reduction operation minimum which has no identity'')
     | x # xs \<Rightarrow> Inr (fold (\<lambda>y acc. np_fmin2 acc y) xs x))"

datatype pareto_note =
    Goods_not_fully_allocated
      \<comment> \<open>\<open>"Goods not fully allocated"\<close>\<close>
  | Allocated_inefficiently nat nat nat
      \<comment> \<open>\<open>f"Good {j} allocated inefficiently (agent {i} values it 0, agent {k} values it positive)"\<close>,
          with \<open>j\<close>, \<open>i\<close>, \<open>k\<close> in this order\<close>
  | No_obvious_inefficiency
      \<comment> \<open>\<open>"No obvious inefficiency detected (heuristic check)"\<close>\<close>

definition pareto_find_k :: "matrix \<Rightarrow> matrix \<Rightarrow> real \<Rightarrow> nat \<Rightarrow> nat \<Rightarrow> nat option" where
  \<comment> \<open>the innermost loop: the first \<open>k\<close> at which the heuristic returns\<close>
  "pareto_find_k allocation utilities tolerance j i =
     List.find (\<lambda>k. k \<noteq> i \<and> utilities ! k ! j > tolerance \<and> allocation ! k ! j < 1 - tolerance)
       [0..<n_agents_of allocation]"

fun pareto_scan_i ::
  "matrix \<Rightarrow> matrix \<Rightarrow> real \<Rightarrow> nat \<Rightarrow> nat list \<Rightarrow> (nat \<times> nat) option" where
  "pareto_scan_i allocation utilities tolerance j [] = None"
| "pareto_scan_i allocation utilities tolerance j (i # is) =
     (if allocation ! i ! j > tolerance \<and> utilities ! i ! j < tolerance then
        (case pareto_find_k allocation utilities tolerance j i of
           Some k \<Rightarrow> Some (i, k)
         | None \<Rightarrow> pareto_scan_i allocation utilities tolerance j is)
      else pareto_scan_i allocation utilities tolerance j is)"

fun pareto_scan_j ::
  "matrix \<Rightarrow> matrix \<Rightarrow> real \<Rightarrow> nat list \<Rightarrow> (nat \<times> nat \<times> nat) option" where
  "pareto_scan_j allocation utilities tolerance [] = None"
| "pareto_scan_j allocation utilities tolerance (j # js) =
     (case pareto_scan_i allocation utilities tolerance j [0..<n_agents_of allocation] of
        Some (i, k) \<Rightarrow> Some (j, i, k)
      | None \<Rightarrow> pareto_scan_j allocation utilities tolerance js)"

definition check_pareto_efficiency_heuristic ::
  "matrix \<Rightarrow> matrix \<Rightarrow> vector \<Rightarrow> real \<Rightarrow> bool \<times> pareto_note" where
  "check_pareto_efficiency_heuristic allocation utilities realized_utilities tolerance =
     (if \<not> np_allclose_scalar (col_sums allocation) 1 tolerance then
        (False, Goods_not_fully_allocated)
      else
        (case pareto_scan_j allocation utilities tolerance [0..<n_goods_of allocation] of
           Some (j, i, k) \<Rightarrow> (False, Allocated_inefficiently j i k)
         | None \<Rightarrow> (True, No_obvious_inefficiency)))"

definition envy_amount :: "matrix \<Rightarrow> matrix \<Rightarrow> vector \<Rightarrow> nat \<Rightarrow> nat \<Rightarrow> real" where
  \<comment> \<open>\<open>(utilities[i, :] * allocation[k, :]).sum() - realized_utilities[i]\<close>\<close>
  "envy_amount allocation utilities realized_utilities i k =
     dot (utilities ! i) (allocation ! k) - realized_utilities ! i"

definition envy_entries :: "matrix \<Rightarrow> matrix \<Rightarrow> vector \<Rightarrow> nat \<Rightarrow> matrix" where
  \<comment> \<open>the matrix of zeros after the double loop, which skips \<open>i = k\<close>\<close>
  "envy_entries allocation utilities realized_utilities n =
     map (\<lambda>i. map (\<lambda>k. if i = k then 0
                        else max 0 (envy_amount allocation utilities realized_utilities i k))
                [0..<n]) [0..<n]"

definition envious_pairs_unsorted ::
  "matrix \<Rightarrow> matrix \<Rightarrow> vector \<Rightarrow> real \<Rightarrow> nat \<Rightarrow> (nat \<times> nat \<times> real) list" where
  "envious_pairs_unsorted allocation utilities realized_utilities tolerance n =
     concat (map (\<lambda>(i, k).
        if i \<noteq> k \<and> envy_amount allocation utilities realized_utilities i k > tolerance
        then [(i, k, envy_amount allocation utilities realized_utilities i k)] else [])
      (index_pairs n n))"

definition analyze_envy ::
  "matrix \<Rightarrow> matrix \<Rightarrow> vector \<Rightarrow> real
     \<Rightarrow> py_error + (matrix \<times> real \<times> bool \<times> (nat \<times> nat \<times> real) list)" where
  \<comment> \<open>\<open>_analyze_envy\<close>; the sort is stable and descending in the amount\<close>
  "analyze_envy allocation utilities realized_utilities tolerance =
     (let n_agents = length realized_utilities;
          envy_matrix = envy_entries allocation utilities realized_utilities n_agents;
          envious_pairs = envious_pairs_unsorted allocation utilities realized_utilities tolerance n_agents
      in case np_max (concat envy_matrix) of
           Inl e \<Rightarrow> Inl e
         | Inr max_envy \<Rightarrow>
             Inr (envy_matrix, max_envy, max_envy \<le> tolerance,
                  sort_key (\<lambda>(i, k, envy). - envy) envious_pairs))"

definition check_symmetric_instance :: "matrix \<Rightarrow> vector \<Rightarrow> real \<Rightarrow> bool" where
  "check_symmetric_instance utilities entitlements tolerance =
     (if \<not> list_all (\<lambda>i. np_allclose (utilities ! i) (utilities ! 0) tolerance)
             [1..<n_agents_of utilities] then False
      else if \<not> np_allclose_scalar entitlements (entitlements ! 0) tolerance then False
      else True)"

definition check_symmetric_allocation ::
  "matrix \<Rightarrow> vector \<Rightarrow> matrix \<Rightarrow> vector \<Rightarrow> real \<Rightarrow> bool" where
  "check_symmetric_allocation allocation realized_utilities utilities entitlements tolerance =
     list_all (\<lambda>i. list_all (\<lambda>k.
         if np_allclose (utilities ! i) (utilities ! k) tolerance
            \<and> \<bar>entitlements ! i - entitlements ! k\<bar> \<le> tolerance
         then \<not> \<bar>realized_utilities ! i - realized_utilities ! k\<bar> > tolerance
         else True) [i + 1..<n_agents_of utilities]) [0..<n_agents_of utilities]"

definition compute_overall_fairness_score :: "bool \<Rightarrow> bool \<Rightarrow> bool \<Rightarrow> real \<Rightarrow> string" where
  "compute_overall_fairness_score is_pareto_efficient is_envy_free is_proportional max_envy =
     (if is_pareto_efficient \<and> is_envy_free \<and> is_proportional then
        ''Excellent (Pareto + EF + Proportional)''
      else if is_pareto_efficient \<and> is_envy_free then ''Very Good (Pareto + EF)''
      else if is_pareto_efficient \<and> max_envy < 1 / 10 then ''Good (Pareto + Low Envy)''
      else if is_pareto_efficient then ''Fair (Pareto Efficient)''
      else if is_envy_free then ''Fair (Envy-Free)''
      else ''Limited (Some fairness issues)'')"

definition compute_welfare_concentration :: "vector \<Rightarrow> real" where
  "compute_welfare_concentration utilities =
     (if length utilities = 0 then 0
      else
        (let sorted_utilities = sort utilities;
             n = length utilities;
             total = sum_list sorted_utilities
         in if total = 0 then 0
            else 2 * sum_list (map2 (\<lambda>r u. real r * u) [1..<n + 1] sorted_utilities)
                   / (real n * total) - (real n + 1) / real n))"

record fairness_summary =
  overall_fairness_score :: string
  num_envious_pairs :: nat
  max_proportionality_gap :: np_float
  welfare_concentration :: real

record FairnessReport =
  fr_utilities :: vector
  fr_total_utility :: real
  fr_nash_welfare :: np_float
  fr_min_utility :: real
  fr_is_pareto_efficient :: bool
  fr_pareto_check_note :: pareto_note
  fr_envy_matrix :: matrix
  fr_max_envy :: real
  fr_is_envy_free :: bool
  fr_envious_pairs :: "(nat \<times> nat \<times> real) list"
  fr_proportional_shares :: "np_float list"
  fr_proportionality_gaps :: "np_float list"
  fr_is_proportional :: bool
  fr_is_symmetric_instance :: bool
  fr_is_symmetric_allocation :: bool
  fr_fairness_summary :: fairness_summary

definition analyze_fairness ::
  "matrix \<Rightarrow> matrix \<Rightarrow> vector \<Rightarrow> real \<Rightarrow> py_error + FairnessReport" where
  "analyze_fairness allocation utilities entitlements tolerance =
     (let realized_utilities = row_utilities allocation utilities;
          total_utility = sum_list realized_utilities
      in case np_min realized_utilities of
           Inl e \<Rightarrow> Inl e
         | Inr min_utility \<Rightarrow>
               (let positive_utilities = map (\<lambda>u. max u (1 / 10 ^ 10)) realized_utilities;
                    normalized_weights = map (\<lambda>w. np_div w (sum_list entitlements)) entitlements;
                    log_nash = np_fsum (map2 (\<lambda>w u. np_mul w (Finite (ln u)))
                                          normalized_weights positive_utilities);
                    nash_welfare = np_exp log_nash;
                    (is_pareto_efficient, pareto_note) =
                       check_pareto_efficiency_heuristic allocation utilities realized_utilities tolerance
                in case analyze_envy allocation utilities realized_utilities tolerance of
                     Inl e \<Rightarrow> Inl e
                   | Inr (envy_matrix, max_envy, is_envy_free, envious_pairs) \<Rightarrow>
                       (let proportional_shares =
                              map (\<lambda>w. np_mul (np_div w (sum_list entitlements)) (Finite total_utility))
                                entitlements;
                            proportionality_gaps =
                              map2 (\<lambda>u s. np_sub (Finite u) s) realized_utilities proportional_shares;
                            is_proportional =
                              list_all (\<lambda>g. np_ge g (- tolerance)) proportionality_gaps;
                            is_symmetric_instance =
                              check_symmetric_instance utilities entitlements tolerance;
                            is_symmetric_allocation =
                              check_symmetric_allocation allocation realized_utilities utilities
                                entitlements tolerance
                        in case np_fmin proportionality_gaps of
                             Inl e \<Rightarrow> Inl e
                           | Inr min_gap \<Rightarrow>
                               Inr \<lparr>fr_utilities = realized_utilities,
                                    fr_total_utility = total_utility,
                                    fr_nash_welfare = nash_welfare,
                                    fr_min_utility = min_utility,
                                    fr_is_pareto_efficient = is_pareto_efficient,
                                    fr_pareto_check_note = pareto_note,
                                    fr_envy_matrix = envy_matrix,
                                    fr_max_envy = max_envy,
                                    fr_is_envy_free = is_envy_free,
                                    fr_envious_pairs = envious_pairs,
                                    fr_proportional_shares = proportional_shares,
                                    fr_proportionality_gaps = proportionality_gaps,
                                    fr_is_proportional = is_proportional,
                                    fr_is_symmetric_instance = is_symmetric_instance,
                                    fr_is_symmetric_allocation = is_symmetric_allocation,
                                    fr_fairness_summary =
                                      \<lparr>overall_fairness_score =
                                          compute_overall_fairness_score is_pareto_efficient
                                            is_envy_free is_proportional max_envy,
                                       num_envious_pairs = length envious_pairs,
                                       max_proportionality_gap = min_gap,
                                       welfare_concentration =
                                          compute_welfare_concentration realized_utilities\<rparr>\<rparr>)))"




section \<open>utils.py: normalize\_allocation\<close>

text \<open>
  \<open>normalize_allocation\<close> copies its argument and then assigns to columns of the copy in
  place. Arrays are mutable objects, so the embedding keeps them in a store: a cell per
  address, and the next address that \<open>copy\<close> will use. The function takes the store and
  the address of its argument and returns the address of the result with the new store.
\<close>

type_synonym addr = nat

record store =
  cells :: "addr \<Rightarrow> matrix"
  next_addr :: addr

definition np_copy :: "store \<Rightarrow> addr \<Rightarrow> addr \<times> store" where
  \<comment> \<open>\<open>allocation.copy()\<close>: a new array with the same entries\<close>
  "np_copy s a =
     (let b = next_addr s in (b, s\<lparr>cells := (cells s)(b := cells s a), next_addr := Suc b\<rparr>))"

definition normalize_column :: "nat \<Rightarrow> real \<Rightarrow> matrix \<Rightarrow> nat \<Rightarrow> py_error + matrix" where
  \<comment> \<open>the body of the loop, on the array being normalised\<close>
  "normalize_column n_agents tolerance A j =
     (let col_sum = sum_list (column A j) in
      if \<bar>col_sum - 1\<bar> > tolerance then
        (if col_sum > tolerance then
           (if col_sum = 0 then Inl NonFinite
            else Inr (map (\<lambda>r. r[j := r ! j / col_sum]) A))
         else
           (if n_agents = 0 then Inl ZeroDivisionError
            else Inr (map (\<lambda>r. r[j := 1 / real n_agents]) A)))
      else Inr A)"

fun normalize_loop :: "store \<Rightarrow> addr \<Rightarrow> nat \<Rightarrow> real \<Rightarrow> nat list \<Rightarrow> py_error + store" where
  "normalize_loop s b n_agents tolerance [] = Inr s"
| "normalize_loop s b n_agents tolerance (j # js) =
     (case normalize_column n_agents tolerance (cells s b) j of
        Inl e \<Rightarrow> Inl e
      | Inr A' \<Rightarrow> normalize_loop (s\<lparr>cells := (cells s)(b := A')\<rparr>) b n_agents tolerance js)"

definition normalize_allocation :: "store \<Rightarrow> addr \<Rightarrow> real \<Rightarrow> py_error + (addr \<times> store)" where
  "normalize_allocation s a tolerance =
     (let (b, s1) = np_copy s a;
          n_agents = n_agents_of (cells s1 b);
          n_goods = n_goods_of (cells s1 b)
      in case normalize_loop s1 b n_agents tolerance [0..<n_goods] of
           Inl e \<Rightarrow> Inl e
         | Inr s2 \<Rightarrow> Inr (b, s2))"

section \<open>The platform's MaxMinSolver (backend/app/algorithms/maxmin.py)\<close>

text \<open>
  The platform builds its own linear program for \<open>scipy.optimize.linprog\<close>. Agents and
  goods are database identifiers; utilities, good values and restrictions are
  dictionaries. The restrictions are kept as the list of their items, in the order in
  which the loop visits them.
\<close>

record MaxMinSolver =
  mm_agents :: "int list"
  mm_goods :: "int list"
  mm_utilities :: "int \<times> int \<rightharpoonup> real"
  mm_entitlements :: "int \<rightharpoonup> real"
  mm_good_values :: "int \<rightharpoonup> real"
  mm_budget :: real
  mm_restrictions :: "((int \<times> int) \<times> bool) list"

record linprog_problem =
  lin_c :: vector
  lin_A_ub :: matrix
  lin_b_ub :: vector
  lin_bounds :: "(real \<times> real option) list"   \<comment> \<open>\<open>(0, None)\<close> has no upper bound\<close>

record linprog_result =
  lin_success :: bool
  lin_message :: string
  lin_x :: "nat \<Rightarrow> real"   \<comment> \<open>\<open>result.x[idx]\<close>, one value per variable\<close>

definition mm_n_agents :: "MaxMinSolver \<Rightarrow> nat" where
  "mm_n_agents s = length (mm_agents s)"

definition mm_n_goods :: "MaxMinSolver \<Rightarrow> nat" where
  "mm_n_goods s = length (mm_goods s)"

definition mm_n_vars :: "MaxMinSolver \<Rightarrow> nat" where
  "mm_n_vars s = mm_n_agents s * mm_n_goods s + 1"

fun py_index :: "'a list \<Rightarrow> 'a \<Rightarrow> nat option" where
  \<comment> \<open>\<open>xs.index(x)\<close>: the first position of \<open>x\<close>; \<open>None\<close> where Python raises\<close>
  "py_index [] x = None"
| "py_index (y # ys) x = (if y = x then Some 0 else map_option Suc (py_index ys x))"

definition get_or :: "('k \<rightharpoonup> real) \<Rightarrow> 'k \<Rightarrow> real \<Rightarrow> real" where
  \<comment> \<open>\<open>d.get(k, default)\<close>\<close>
  "get_or d k dflt = (case d k of None \<Rightarrow> dflt | Some v \<Rightarrow> v)"

definition mm_agent_row :: "MaxMinSolver \<Rightarrow> nat \<Rightarrow> vector" where
  \<comment> \<open>\<open>-sum_j(x_ij * u_ij) + t <= 0\<close>\<close>
  "mm_agent_row s i =
     (fold (\<lambda>j row. row[i * mm_n_goods s + j :=
                - get_or (mm_utilities s) (mm_agents s ! i, mm_goods s ! j) 0])
        [0..<mm_n_goods s] (replicate (mm_n_vars s) 0))
     [mm_n_vars s - 1 := 1]"

definition mm_good_row :: "MaxMinSolver \<Rightarrow> nat \<Rightarrow> vector" where
  \<comment> \<open>\<open>sum_i(x_ij) <= 1\<close>\<close>
  "mm_good_row s j =
     fold (\<lambda>i row. row[i * mm_n_goods s + j := 1]) [0..<mm_n_agents s] (replicate (mm_n_vars s) 0)"

definition mm_budget_row :: "MaxMinSolver \<Rightarrow> vector" where
  \<comment> \<open>\<open>sum_ij(x_ij * v_j) <= budget\<close>\<close>
  "mm_budget_row s =
     fold (\<lambda>(i, j) row. row[i * mm_n_goods s + j := get_or (mm_good_values s) (mm_goods s ! j) 0])
       (index_pairs (mm_n_agents s) (mm_n_goods s)) (replicate (mm_n_vars s) 0)"

fun mm_restrict ::
  "MaxMinSolver \<Rightarrow> ((int \<times> int) \<times> bool) list \<Rightarrow> (real \<times> real option) list
     \<Rightarrow> py_error + (real \<times> real option) list" where
  \<comment> \<open>the loop over \<open>self.restrictions.items()\<close>\<close>
  "mm_restrict s [] bounds = Inr bounds"
| "mm_restrict s (((agent_id, good_id), allowed) # rest) bounds =
     (if \<not> allowed then
        (case py_index (mm_agents s) agent_id of
           None \<Rightarrow> Inl (ValueError ''is not in list'')
         | Some i \<Rightarrow>
             (case py_index (mm_goods s) good_id of
                None \<Rightarrow> Inl (ValueError ''is not in list'')
              | Some j \<Rightarrow> mm_restrict s rest (bounds[i * mm_n_goods s + j := (0, Some 0)])))
      else mm_restrict s rest bounds)"

definition mm_problem :: "MaxMinSolver \<Rightarrow> py_error + linprog_problem" where
  "mm_problem s =
     (case mm_restrict s (mm_restrictions s) (replicate (mm_n_vars s) (0, None)) of
        Inl e \<Rightarrow> Inl e
      | Inr bounds \<Rightarrow>
          Inr \<lparr>lin_c = (replicate (mm_n_vars s) 0)[mm_n_vars s - 1 := - 1],
               lin_A_ub = map (mm_agent_row s) [0..<mm_n_agents s]
                          @ map (mm_good_row s) [0..<mm_n_goods s] @ [mm_budget_row s],
               lin_b_ub = replicate (mm_n_agents s) 0 @ replicate (mm_n_goods s) 1 @ [mm_budget s],
               lin_bounds = bounds\<rparr>)"

definition mm_extract :: "MaxMinSolver \<Rightarrow> (nat \<Rightarrow> real) \<Rightarrow> (int \<times> int \<rightharpoonup> real)" where
  \<comment> \<open>the dictionary of the amounts above \<open>1e-6\<close>\<close>
  "mm_extract s x =
     fold (\<lambda>(i, j) allocations.
             if x (i * mm_n_goods s + j) > 1 / 10 ^ 6
             then allocations((mm_agents s ! i, mm_goods s ! j) \<mapsto> x (i * mm_n_goods s + j))
             else allocations)
       (index_pairs (mm_n_agents s) (mm_n_goods s)) Map.empty"

definition mm_solve ::
  "(linprog_problem \<Rightarrow> linprog_result) \<Rightarrow> MaxMinSolver
     \<Rightarrow> py_error + ((int \<times> int \<rightharpoonup> real) \<times> real)" where
  \<comment> \<open>\<open>MaxMinSolver.solve\<close>; the \<open>except\<close> clause logs and raises the same error again\<close>
  "mm_solve linprog s =
     (case mm_problem s of
        Inl e \<Rightarrow> Inl e
      | Inr problem \<Rightarrow>
          (let result = linprog problem in
           if \<not> lin_success result then
             Inl (ValueError (''Optimization failed: '' @ lin_message result))
           else Inr (mm_extract s (lin_x result), lin_x result (mm_n_vars s - 1))))"

section \<open>What an engine's answer is expected to satisfy\<close>

text \<open>
  The engines are external. Where a property of a returned allocation depends on the
  engine honouring the program it was given, that is stated with the predicates below.
\<close>

definition lp_eval :: "lp_outcome \<Rightarrow> lp_var \<Rightarrow> real" where
  "lp_eval out v = (case v of X i j \<Rightarrow> out_x out i j | T_min \<Rightarrow> out_t out)"

definition lp_feasible :: "lp_model \<Rightarrow> lp_outcome \<Rightarrow> bool" where
  \<comment> \<open>the solution values respect every variable bound and every constraint of the program\<close>
  "lp_feasible lp out \<longleftrightarrow>
     list_all (\<lambda>v. var_lb v \<le> lp_eval out (var_id v)
                  \<and> (case var_ub v of None \<Rightarrow> True | Some u \<Rightarrow> lp_eval out (var_id v) \<le> u))
       (lp_vars lp)
     \<and> list_all (\<lambda>c. con_lb c \<le> sum_list (map (\<lambda>(v, a). a * lp_eval out v) (con_coeffs c))
                  \<and> (case con_ub c of None \<Rightarrow> True
                      | Some u \<Rightarrow> sum_list (map (\<lambda>(v, a). a * lp_eval out v) (con_coeffs c)) \<le> u))
       (lp_constraints lp)"

definition within_upper_bounds :: "(real \<times> real option) list \<Rightarrow> (nat \<Rightarrow> real) \<Rightarrow> bool" where
  \<comment> \<open>every variable with an upper bound stays below it, up to \<open>1e-6\<close>\<close>
  "within_upper_bounds bounds x =
     list_all (\<lambda>idx. case snd (bounds ! idx) of None \<Rightarrow> True | Some ub \<Rightarrow> x idx \<le> ub + 1 / 10 ^ 6)
       [0..<length bounds]"

text \<open>
  What the function is to do with one column, in the words of its description: a column
  whose sum is within the tolerance of \<open>1\<close> is kept; otherwise a column whose sum exceeds
  the tolerance is divided by its sum, and any other column is set to \<open>1 / n_agents\<close>
  throughout. The properties below compare the loop on the store with this.
\<close>

definition normalized_column :: "nat \<Rightarrow> real \<Rightarrow> vector \<Rightarrow> vector" where
  "normalized_column n tol c =
     (if \<bar>sum_list c - 1\<bar> > tol then
        (if sum_list c > tol then map (\<lambda>x. x / sum_list c) c else replicate n (1 / real n))
      else c)"

section \<open>Properties: arrays\<close>

lemma any_less_iff:
  "any_less A c \<longleftrightarrow> (\<exists>i<length A. \<exists>j<length (A ! i). A ! i ! j < c)"
  unfolding any_less_def list_ex_iff by (metis in_set_conv_nth)

lemma is_matrix_n_goods: "is_matrix n m A \<Longrightarrow> n_goods_of A = m"
  by (cases A) (auto simp: is_matrix_def n_goods_of_def)

lemma is_matrix_row: "is_matrix n m A \<Longrightarrow> i < n \<Longrightarrow> length (A ! i) = m"
  by (auto simp: is_matrix_def list_all_length)

lemma is_matrix_length: "is_matrix n m A \<Longrightarrow> length A = n"
  by (simp add: is_matrix_def)

lemma allclose_col_sums_iff:
  "np_allclose_scalar (col_sums A) 1 (1 / 10 ^ 6) \<longleftrightarrow>
     (\<forall>j<n_goods_of A. \<bar>sum_list (column A j) - 1\<bar> \<le> 11 / 10 ^ 6)"
  unfolding np_allclose_scalar_def col_sums_def np_isclose_def np_rtol_def list_all_iff
  by auto

lemma col_sums_zeros2: "0 < n \<Longrightarrow> col_sums (zeros2 n m) = replicate m 0"
  by (cases n) (auto simp: col_sums_def zeros2_def column_def n_goods_of_def map_replicate_const
      sum_list_replicate intro!: nth_equalityI)

section \<open>Properties: the AllocationResult constructor\<close>

text \<open>
  C4, as the claim states it, fails. The column check is \<open>np.allclose(col_sums, 1.0,
  atol=1e-6)\<close>, and \<open>np.allclose\<close> adds its default relative tolerance \<open>1e-5 * |1.0|\<close> to
  \<open>atol\<close>. A single column summing to \<open>1.000005\<close> is off by more than \<open>1e-6\<close>, and the
  constructor accepts it.
\<close>

theorem post_init_tolerance_counterexample:
  "1 / 10 ^ 6 < \<bar>sum_list (column [[1000005 / 1000000]] 0) - 1\<bar>
   \<and> \<not> isl (post_init \<lparr>ar_allocation = [[1000005 / 1000000]], ar_utilities = [0],
         ar_objective_value = 0, ar_solver_status = ''optimal'', ar_solve_time = 0,
         ar_metadata = []\<rparr>)"
  by (simp add: post_init_def any_less_def col_sums_def column_def n_goods_of_def n_agents_of_def
      np_allclose_scalar_def np_isclose_def np_rtol_def)

text \<open>
  C4, amended: the constructor raises if and only if some entry of the allocation is
  below \<open>-1e-9\<close>, or some column sum differs from \<open>1.0\<close> by more than \<open>1.1e-5\<close> (the
  \<open>atol = 1e-6\<close> of the call plus the default \<open>rtol = 1e-5\<close> of \<open>np.allclose\<close>), or the
  utilities vector does not have \<open>n_agents\<close> entries; on every other input it succeeds
  and yields the record unchanged.
\<close>

theorem post_init_raises_iff:
  assumes "is_matrix n m (ar_allocation r)"
  shows "(isl (post_init r) \<longleftrightarrow>
            (\<exists>i<n. \<exists>j<m. ar_allocation r ! i ! j < - (1 / 10 ^ 9))
          \<or> (\<exists>j<m. \<bar>sum_list (column (ar_allocation r) j) - 1\<bar> > 11 / 10 ^ 6)
          \<or> length (ar_utilities r) \<noteq> n)
       \<and> (\<not> isl (post_init r) \<longleftrightarrow> post_init r = Inr r)"
proof -
  let ?A = "ar_allocation r"
  have neg: "any_less ?A (- (1 / 10 ^ 9)) \<longleftrightarrow> (\<exists>i<n. \<exists>j<m. ?A ! i ! j < - (1 / 10 ^ 9))"
  proof -
    have L: "length ?A = n" and R: "\<And>i. i < n \<Longrightarrow> length (?A ! i) = m"
      using assms by (simp_all add: is_matrix_length is_matrix_row)
    show ?thesis unfolding any_less_iff L using R by metis
  qed
  have cols: "\<not> np_allclose_scalar (col_sums ?A) 1 (1 / 10 ^ 6) \<longleftrightarrow>
      (\<exists>j<m. \<bar>sum_list (column ?A j) - 1\<bar> > 11 / 10 ^ 6)"
  proof -
    have G: "n_goods_of ?A = m" using assms by (rule is_matrix_n_goods)
    show ?thesis using allclose_col_sums_iff[of ?A, unfolded G] by (auto simp: not_le)
  qed
  have len: "n_agents_of ?A = n"
    using assms by (simp add: n_agents_of_def is_matrix_length)
  show ?thesis
    unfolding post_init_def using neg cols len by auto
qed

theorem post_init_raises_iff_witness:
  "is_matrix 1 1 [[1]]
   \<and> isl (post_init \<lparr>ar_allocation = [[1]], ar_utilities = [], ar_objective_value = 0,
        ar_solver_status = ''optimal'', ar_solve_time = 0, ar_metadata = []\<rparr>)"
  using post_init_raises_iff[of 1 1 "\<lparr>ar_allocation = [[1]], ar_utilities = [],
        ar_objective_value = 0, ar_solver_status = ''optimal'', ar_solve_time = 0,
        ar_metadata = []\<rparr>"]
  by (simp add: is_matrix_def)

section \<open>Properties: the MaxMin return policy\<close>

lemma maxmin_no_solution_raises:
  assumes "length w = length U" "\<not> any_less U 0" "\<not> list_ex (\<lambda>x. x \<le> 0) w" "0 < eps"
    and "0 < n_goods_of U"
    and "- (2 ^ 63) \<le> py_int (secs * 1000)" and "py_int (secs * 1000) < 2 ^ 63"
    and "out_status (solve (maxmin_lp U w eps secs)) \<noteq> OPTIMAL"
    and "out_status (solve (maxmin_lp U w eps secs)) \<noteq> FEASIBLE"
  shows "solve_maxmin_allocation (Some solve) U w eps secs
           = Inl (ValueError ''Goods not fully allocated. Column sums: '')"
proof -
  let ?m = "n_goods_of U"
  have n: "0 < length U" using assms(5) by (cases U) (simp_all add: n_goods_of_def)
  have Z: "\<not> any_less (zeros2 (length U) ?m) (- (1 / 10 ^ 9))"
    by (simp add: any_less_def zeros2_def list_ex_iff)
  have C: "\<not> np_allclose_scalar (col_sums (zeros2 (length U) ?m)) 1 (1 / 10 ^ 6)"
    using assms(5) n
    by (cases ?m) (simp_all add: col_sums_zeros2 np_allclose_scalar_def np_isclose_def np_rtol_def)
  show ?thesis
    using assms Z C
    by (simp add: solve_maxmin_allocation_def Let_def n_agents_of_def new_AllocationResult_def
        post_init_def)
qed

lemma maxmin_zero_agent_program_infeasible:
  "\<not> lp_feasible (maxmin_lp [[0, 0], [5, 10]] [1, 1] (1 / 1000) 300) out"
proof
  assume F: "lp_feasible (maxmin_lp [[0, 0], [5, 10]] [1, 1] (1 / 1000) 300) out"
  then have "1 / 1000 \<le> out_t out" and "0 \<le> - out_t out"
    by (simp_all add: lp_feasible_def maxmin_lp_def maxmin_variables_def
        maxmin_agent_constraint_def n_agents_of_def n_goods_of_def lp_eval_def Let_def)
  then show False by simp
qed

text \<open>
  C1: when the engine reports a status other than OPTIMAL or FEASIBLE, the function is to
  return an \<open>AllocationResult\<close> with status \<open>infeasible\<close> and an all-zeros allocation.
  The code builds exactly that record, but the constructor still runs its column check on
  it: the columns of the zero matrix sum to \<open>0\<close>, and the call ends in the constructor's
  \<open>ValueError\<close>. Here agent 0 values nothing and \<open>epsilon = 1e-3\<close>: the program asks for
  \<open>t \<le> 0\<close> and \<open>t \<ge> 1e-3\<close>, no assignment satisfies it (the lemma above), and the engine
  reports INFEASIBLE.
\<close>

theorem maxmin_infeasible_raises:
  "solve_maxmin_allocation
     (Some (\<lambda>lp. \<lparr>out_status = INFEASIBLE, out_x = (\<lambda>i j. 0), out_t = 0, out_seconds = 0\<rparr>))
     [[0, 0], [5, 10]] [1, 1] (1 / 1000) 300
   = Inl (ValueError ''Goods not fully allocated. Column sums: '')"
  by (simp add: solve_maxmin_allocation_def n_agents_of_def n_goods_of_def any_less_def
      new_AllocationResult_def post_init_def zeros2_def col_sums_def column_def
      np_allclose_scalar_def np_isclose_def np_rtol_def py_int_def)

section \<open>Properties: input validation\<close>

text \<open>
  C5: for every utilities matrix with at least one negative entry, every entitlement
  vector of the instance (shape \<open>(n_agents,)\<close>, any values, also zero or negative ones)
  and every epsilon (also a nonpositive one), both solvers fail with the \<open>ValueError\<close>
  "Utilities must be non-negative". The result is the same for every engine: no engine
  is consulted.
\<close>

theorem negative_utility_rejected:
  assumes "is_matrix n m utilities" and "length entitlements = n"
    and "i < n" and "j < m" and "utilities ! i ! j < 0"
  shows "solve_maxmin_allocation engine utilities entitlements epsilon time_limit
           = Inl (ValueError ''Utilities must be non-negative'')
       \<and> solve_nash_allocation minimize utilities entitlements epsilon time_limit solver_options
           = Inl (ValueError ''Utilities must be non-negative'')"
proof -
  have "any_less utilities 0"
    unfolding any_less_iff using assms is_matrix_length is_matrix_row by metis
  moreover have "length entitlements = n_agents_of utilities"
    using assms by (simp add: n_agents_of_def is_matrix_length)
  ultimately show ?thesis
    by (simp add: solve_maxmin_allocation_def solve_nash_allocation_def Let_def)
qed

theorem negative_utility_rejected_witness:
  "solve_maxmin_allocation None [[10, - 5], [5, 10]] [0, - 1] (- 1) 300
           = Inl (ValueError ''Utilities must be non-negative'')
       \<and> solve_nash_allocation (\<lambda>p. \<lparr>res_x = [], res_fun = 0, res_success = True,
              res_message = [], res_nit = None, res_seconds = 0\<rparr>)
            [[10, - 5], [5, 10]] [0, - 1] (- 1) 300 None
           = Inl (ValueError ''Utilities must be non-negative'')"
  by (rule negative_utility_rejected[where n = 2 and m = 2 and i = 0 and j = 1])
     (simp_all add: is_matrix_def)

section \<open>Properties: the Nash return policy\<close>

lemma length_unflatten: "length (unflatten n m x) = n"
  by (simp add: unflatten_def)

lemma length_row_utilities: "length (row_utilities A U) = min (length A) (length U)"
  by (simp add: row_utilities_def)

text \<open>
  C2, as the claim states it, fails: the code has no error that carries the engine's
  message. A failed run is labelled \<open>feasible\<close> and handed to the constructor; when the
  point is far from feasible (here every column sums to \<open>1.4\<close>) the call ends in the
  constructor's own \<open>ValueError\<close>, and the engine's message "Iteration limit reached" is
  lost.
\<close>

theorem nash_failure_not_solver_failed_counterexample:
  "solve_nash_allocation
     (\<lambda>p. \<lparr>res_x = [7 / 10, 7 / 10, 7 / 10, 7 / 10], res_fun = 0, res_success = False,
            res_message = ''Iteration limit reached'', res_nit = Some 1000, res_seconds = 0\<rparr>)
     [[10, 5], [5, 10]] [1, 1] (1 / 10 ^ 6) 300 None
   = Inl (ValueError ''Goods not fully allocated. Column sums: '')"
  by (simp add: solve_nash_allocation_def n_agents_of_def n_goods_of_def any_less_def
      new_AllocationResult_def post_init_def unflatten_def col_sums_def column_def
      np_allclose_scalar_def np_isclose_def np_rtol_def)

text \<open>
  C2, amended: when the engine reports failure on validated inputs, the run is labelled
  \<open>feasible\<close>, the engine's message is kept in \<open>metadata.scipy_message\<close>, and the point is
  handed to the \<open>AllocationResult\<close> constructor. The result is returned exactly when the
  point passes the constructor's checks (no entry below \<open>-1e-9\<close>, column sums close to
  \<open>1\<close>); otherwise the call raises the constructor's \<open>ValueError\<close>, "Allocation contains
  negative values" or "Goods not fully allocated", never an error with the engine's
  message.
\<close>

theorem nash_failure_policy:
  assumes "length entitlements = length utilities" and "0 < length utilities"
    and "\<not> any_less utilities 0" and "\<not> list_ex (\<lambda>w. w \<le> 0) entitlements" and "0 < epsilon"
    and "result = minimize (nash_problem utilities entitlements epsilon
                              (case solver_options of None \<Rightarrow> [] | Some d \<Rightarrow> d))"
    and "\<not> res_success result"
    and "length (res_x result) = length utilities * n_goods_of utilities"
    and "x_opt = unflatten (length utilities) (n_goods_of utilities) (res_x result)"
  shows "solve_nash_allocation minimize utilities entitlements epsilon time_limit solver_options =
     (if any_less x_opt (- (1 / 10 ^ 9)) then
        Inl (ValueError ''Allocation contains negative values'')
      else if \<not> np_allclose_scalar (col_sums x_opt) 1 (1 / 10 ^ 6) then
        Inl (ValueError ''Goods not fully allocated. Column sums: '')
      else
        Inr \<lparr>ar_allocation = x_opt,
             ar_utilities = row_utilities x_opt utilities,
             ar_objective_value = - res_fun result,
             ar_solver_status = ''feasible'',
             ar_solve_time = res_seconds result,
             ar_metadata =
               [(''log_nash_welfare'', M_real (- res_fun result)),
                (''nash_product'', M_real (exp (- res_fun result))),
                (''algorithm'', M_str ''nash_social_welfare''),
                (''scipy_message'', M_str (res_message result)),
                (''scipy_success'', M_bool False),
                (''iterations'', (case res_nit result of None \<Rightarrow> M_none | Some k \<Rightarrow> M_nat k))]\<rparr>)"
  using assms
  by (simp add: solve_nash_allocation_def Let_def n_agents_of_def new_AllocationResult_def
      post_init_def length_unflatten length_row_utilities)

theorem nash_failure_policy_witness:
  "solve_nash_allocation
     (\<lambda>p. \<lparr>res_x = [1 / 2, 1 / 2, 1 / 2, 1 / 2], res_fun = - 2, res_success = False,
            res_message = ''Iteration limit reached'', res_nit = Some 1000, res_seconds = 0\<rparr>)
     [[10, 5], [5, 10]] [1, 1] (1 / 10 ^ 6) 300 None
   = Inr \<lparr>ar_allocation = [[1 / 2, 1 / 2], [1 / 2, 1 / 2]],
          ar_utilities = [15 / 2, 15 / 2],
          ar_objective_value = 2,
          ar_solver_status = ''feasible'',
          ar_solve_time = 0,
          ar_metadata =
               [(''log_nash_welfare'', M_real 2),
                (''nash_product'', M_real (exp 2)),
                (''algorithm'', M_str ''nash_social_welfare''),
                (''scipy_message'', M_str ''Iteration limit reached''),
                (''scipy_success'', M_bool False),
                (''iterations'', M_nat 1000)]\<rparr>"
  using nash_failure_policy[of "[1, 1]" "[[10, 5], [5, 10]]" "1 / 10 ^ 6"
      "\<lparr>res_x = [1 / 2, 1 / 2, 1 / 2, 1 / 2], res_fun = - 2, res_success = False,
            res_message = ''Iteration limit reached'', res_nit = Some 1000, res_seconds = 0\<rparr>"
      "\<lambda>p. \<lparr>res_x = [1 / 2, 1 / 2, 1 / 2, 1 / 2], res_fun = - 2, res_success = False,
            res_message = ''Iteration limit reached'', res_nit = Some 1000, res_seconds = 0\<rparr>"
      None "[[1 / 2, 1 / 2], [1 / 2, 1 / 2]]" 300]
  by (simp add: any_less_def n_goods_of_def unflatten_def col_sums_def column_def
      np_allclose_scalar_def np_isclose_def np_rtol_def row_utilities_def dot_def)

section \<open>Properties: restrictions\<close>

text \<open>
  C3, as the claim states it, fails for \<open>solve_maxmin_allocation\<close>: the function has no
  restrictions argument, and its program gives every \<open>x[i,j]\<close> the bounds \<open>[0, 1]\<close>. On
  the symmetric 2 by 2 instance the engine's optimum, which satisfies the whole program,
  gives agent 0 all of good 0; a caller for whom the pair \<open>(0, 0)\<close> is forbidden has no
  way to say so, and the returned allocation has \<open>x[0,0] = 1\<close> with status \<open>optimal\<close>.
\<close>

theorem maxmin_ignores_restrictions_counterexample:
  "map_sum id (\<lambda>r. (ar_solver_status r, ar_allocation r))
     (solve_maxmin_allocation
        (Some (\<lambda>lp. \<lparr>out_status = OPTIMAL, out_x = (\<lambda>i j. if i = j then 1 else 0), out_t = 10,
                       out_seconds = 0\<rparr>))
        [[10, 5], [5, 10]] [1, 1] (1 / 10 ^ 6) 300)
     = Inr (''optimal'', [[1, 0], [0, 1]])
   \<and> lp_feasible (maxmin_lp [[10, 5], [5, 10]] [1, 1] (1 / 10 ^ 6) 300)
        \<lparr>out_status = OPTIMAL, out_x = (\<lambda>i j. if i = j then 1 else 0), out_t = 10, out_seconds = 0\<rparr>
   \<and> lp_vars (maxmin_lp [[10, 5], [5, 10]] [1, 1] (1 / 10 ^ 6) 300) ! 0
        = \<lparr>var_id = X 0 0, var_lb = 0, var_ub = Some 1\<rparr>
   \<and> 1 / 10 ^ 6 < [[1, 0], [0, 1 :: real]] ! 0 ! 0"
  by (simp add: solve_maxmin_allocation_def n_agents_of_def n_goods_of_def any_less_def
      new_AllocationResult_def post_init_def col_sums_def column_def
      np_allclose_scalar_def np_isclose_def np_rtol_def row_utilities_def dot_def
      lp_feasible_def maxmin_lp_def maxmin_variables_def maxmin_agent_constraint_def
      maxmin_good_constraint_def lp_eval_def Let_def py_int_def)

lemma py_index_Some: "py_index xs x = Some i \<Longrightarrow> i < length xs \<and> xs ! i = x"
  by (induction xs arbitrary: i) (auto split: if_splits)

lemma mm_restrict_length: "mm_restrict s rs b = Inr b' \<Longrightarrow> length b' = length b"
  by (induction s rs b rule: mm_restrict.induct) (auto split: if_splits option.splits)

lemma mm_restrict_keeps:
  "mm_restrict s rs b = Inr b' \<Longrightarrow> idx < length b \<Longrightarrow> b ! idx = (0, Some 0)
     \<Longrightarrow> b' ! idx = (0, Some 0)"
proof (induction s rs b rule: mm_restrict.induct)
  case (1 s bounds)
  then show ?case by simp
next
  case (2 s agent_id good_id allowed rest bounds)
  show ?case
  proof (cases allowed)
    case True
    with 2 show ?thesis by simp
  next
    case False
    from False "2.prems"(1) obtain i j where
      i: "py_index (mm_agents s) agent_id = Some i" and j: "py_index (mm_goods s) good_id = Some j"
      and rec: "mm_restrict s rest (bounds[i * mm_n_goods s + j := (0, Some 0)]) = Inr b'"
      by (auto split: option.splits)
    have "(bounds[i * mm_n_goods s + j := (0, Some 0)]) ! idx = (0, Some 0)"
      using "2.prems"(2,3) by (cases "idx = i * mm_n_goods s + j") simp_all
    then show ?thesis
      using "2.IH"(1)[OF _ i j rec] False "2.prems"(2) by simp
  qed
qed

lemma mm_restrict_sets:
  "mm_restrict s rs b = Inr b' \<Longrightarrow> ((a, g), False) \<in> set rs \<Longrightarrow> length b = mm_n_vars s
     \<Longrightarrow> \<exists>i j. py_index (mm_agents s) a = Some i \<and> py_index (mm_goods s) g = Some j
             \<and> b' ! (i * mm_n_goods s + j) = (0, Some 0)"
proof (induction s rs b rule: mm_restrict.induct)
  case (1 s bounds)
  then show ?case by simp
next
  case (2 s agent_id good_id allowed rest bounds)
  show ?case
  proof (cases allowed)
    case True
    with 2 show ?thesis by auto
  next
    case False
    from False "2.prems"(1) obtain i j where
      i: "py_index (mm_agents s) agent_id = Some i" and j: "py_index (mm_goods s) good_id = Some j"
      and rec: "mm_restrict s rest (bounds[i * mm_n_goods s + j := (0, Some 0)]) = Inr b'"
      by (auto split: option.splits)
    show ?thesis
    proof (cases "(a, g) = (agent_id, good_id)")
      case True
      have "i < mm_n_agents s" "j < mm_n_goods s"
        using py_index_Some[OF i] py_index_Some[OF j] by (simp_all add: mm_n_agents_def mm_n_goods_def)
      then have "i * mm_n_goods s + j < mm_n_agents s * mm_n_goods s"
      proof -
        assume a: "i < mm_n_agents s" "j < mm_n_goods s"
        have "i * mm_n_goods s + j < i * mm_n_goods s + mm_n_goods s" using a by simp
        also have "\<dots> = Suc i * mm_n_goods s" by simp
        also have "\<dots> \<le> mm_n_agents s * mm_n_goods s"
          using a by (intro mult_le_mono1) simp
        finally show ?thesis .
      qed
      then have lt: "i * mm_n_goods s + j < length bounds"
        using "2.prems"(3) by (simp add: mm_n_vars_def)
      have "b' ! (i * mm_n_goods s + j) = (0, Some 0)"
        using mm_restrict_keeps[OF rec] lt by simp
      with True i j show ?thesis by auto
    next
      case neq: False
      then have "((a, g), False) \<in> set rest" using "2.prems"(2) by auto
      then show ?thesis
        using "2.IH"(1)[OF _ i j rec] False "2.prems"(3) by simp
    qed
  qed
qed


lemma set_index_pairs: "set (index_pairs p q) = {(a, b). a < p \<and> b < q}"
  by (auto simp: index_pairs_def)

lemma mm_extract_fold_None:
  assumes "\<And>i j. (i, j) \<in> set ps \<Longrightarrow> (ags ! i, gds ! j) = key \<Longrightarrow> \<not> x (i * m + j) > c"
    and "M key = None"
  shows "fold (\<lambda>(i, j) allocations.
             if x (i * m + j) > c
             then allocations((ags ! i, gds ! j) \<mapsto> x (i * m + j))
             else allocations) ps M key = None"
  using assms
proof (induction ps arbitrary: M)
  case Nil
  then show ?case by simp
next
  case (Cons p ps)
  obtain i j where p: "p = (i, j)" by (cases p)
  show ?case
    unfolding p fold_simps
    apply (rule Cons.IH)
    using Cons.prems p by (auto split: if_splits)
qed

lemma within_upper_bounds_nth:
  "within_upper_bounds bounds x \<Longrightarrow> idx < length bounds \<Longrightarrow> snd (bounds ! idx) = Some ub
     \<Longrightarrow> x idx \<le> ub + 1 / 10 ^ 6"
  by (auto simp: within_upper_bounds_def list_all_iff split: option.splits)

lemma flat_index_less: "i < n \<Longrightarrow> j < m \<Longrightarrow> i * m + j < n * (m::nat)"
proof -
  assume a: "i < n" "j < m"
  have "i * m + j < i * m + m" using a by simp
  also have "\<dots> = Suc i * m" by simp
  also have "\<dots> \<le> n * m" using a by (intro mult_le_mono1) simp
  finally show ?thesis .
qed

text \<open>
  C3, amended: restrictions are enforced by the platform's \<open>MaxMinSolver.solve\<close>, not by
  \<open>solve_maxmin_allocation\<close>. For every pair marked not allowed, \<open>solve\<close> sets the bounds
  of the variable \<open>i * n_goods + j\<close> to \<open>(0, 0)\<close>; when agent and good identifiers are
  distinct and the engine's solution stays within the upper bounds it was given (up to
  \<open>1e-6\<close>), a returned allocation has \<open>x[i,j] \<le> 1e-6\<close> there and holds no entry for the
  restricted pair.
\<close>

theorem mm_restricted_pair_gets_nothing:
  assumes "distinct (mm_agents s)" and "distinct (mm_goods s)"
    and "((agent_id, good_id), False) \<in> set (mm_restrictions s)"
    and "case mm_problem s of Inl e \<Rightarrow> True
         | Inr problem \<Rightarrow> within_upper_bounds (lin_bounds problem) (lin_x (linprog problem))"
    and "mm_solve linprog s = Inr (allocations, objective_value)"
  shows "\<exists>problem i j. mm_problem s = Inr problem
           \<and> py_index (mm_agents s) agent_id = Some i \<and> py_index (mm_goods s) good_id = Some j
           \<and> lin_bounds problem ! (i * mm_n_goods s + j) = (0, Some 0)
           \<and> lin_x (linprog problem) (i * mm_n_goods s + j) \<le> 1 / 10 ^ 6
           \<and> allocations (agent_id, good_id) = None"
proof -
  from assms(5) obtain problem where P: "mm_problem s = Inr problem"
    by (auto simp: mm_solve_def split: sum.splits)
  from P obtain bounds where
    B: "mm_restrict s (mm_restrictions s) (replicate (mm_n_vars s) (0, None)) = Inr bounds"
    and PB: "lin_bounds problem = bounds"
    by (auto simp: mm_problem_def split: sum.splits)
  from mm_restrict_sets[OF B assms(3)] obtain i j where
    i: "py_index (mm_agents s) agent_id = Some i" and j: "py_index (mm_goods s) good_id = Some j"
    and Z: "bounds ! (i * mm_n_goods s + j) = (0, Some 0)"
    by auto
  let ?m = "mm_n_goods s"
  let ?x = "lin_x (linprog problem)"
  have il: "i < mm_n_agents s" "mm_agents s ! i = agent_id"
    and jl: "j < ?m" "mm_goods s ! j = good_id"
    using py_index_Some[OF i] py_index_Some[OF j] by (simp_all add: mm_n_agents_def mm_n_goods_def)
  have len: "length bounds = mm_n_vars s"
    using mm_restrict_length[OF B] by simp
  have lt: "i * ?m + j < length bounds"
    using flat_index_less[OF il(1) jl(1)] len by (simp add: mm_n_vars_def)
  have W: "within_upper_bounds bounds ?x"
    using assms(4) P PB by simp
  have le: "?x (i * ?m + j) \<le> 1 / 10 ^ 6"
    using within_upper_bounds_nth[OF W lt, of 0] Z by simp
  have A: "allocations = mm_extract s ?x"
    using assms(5) P by (auto simp: mm_solve_def Let_def split: if_splits)
  have "mm_extract s ?x (agent_id, good_id) = None"
    unfolding mm_extract_def
  proof (rule mm_extract_fold_None)
    fix i' j'
    assume mem: "(i', j') \<in> set (index_pairs (mm_n_agents s) (mm_n_goods s))"
      and key: "(mm_agents s ! i', mm_goods s ! j') = (agent_id, good_id)"
    from mem have "i' < mm_n_agents s" "j' < ?m" by (simp_all add: set_index_pairs)
    with key il jl assms(1,2) have "i' = i" "j' = j"
      unfolding mm_n_agents_def mm_n_goods_def
      by (metis nth_eq_iff_index_eq prod.inject)+
    with le show "\<not> ?x (i' * ?m + j') > 1 / 10 ^ 6" by simp
  qed simp
  with A P PB i j Z le show ?thesis by auto
qed

theorem mm_restricted_pair_gets_nothing_witness:
  "mm_solve (\<lambda>p. \<lparr>lin_success = True, lin_message = [], lin_x = (\<lambda>idx. if idx = 0 then 0 else 1)\<rparr>)
      \<lparr>mm_agents = [7, 8], mm_goods = [3], mm_utilities = [(7, 3) \<mapsto> 10, (8, 3) \<mapsto> 5],
       mm_entitlements = [7 \<mapsto> 1 / 2, 8 \<mapsto> 1 / 2], mm_good_values = [3 \<mapsto> 100],
       mm_budget = 100, mm_restrictions = [((7, 3), False)]\<rparr>
    = Inr ([(8, 3) \<mapsto> 1], 1)"
  using mm_restricted_pair_gets_nothing[of
      "\<lparr>mm_agents = [7, 8], mm_goods = [3], mm_utilities = [(7, 3) \<mapsto> 10, (8, 3) \<mapsto> 5],
       mm_entitlements = [7 \<mapsto> 1 / 2, 8 \<mapsto> 1 / 2], mm_good_values = [3 \<mapsto> 100],
       mm_budget = 100, mm_restrictions = [((7, 3), False)]\<rparr>" 7 3
      "\<lambda>p. \<lparr>lin_success = True, lin_message = [], lin_x = (\<lambda>idx. if idx = 0 then 0 else 1)\<rparr>"]
  by (simp add: mm_solve_def mm_problem_def mm_n_vars_def mm_n_agents_def mm_n_goods_def
      within_upper_bounds_def mm_extract_def index_pairs_def)

section \<open>Properties: diagnostics\<close>


lemma row_utilities_length:
  "is_matrix n m A \<Longrightarrow> is_matrix n m U \<Longrightarrow> length (row_utilities A U) = n"
  by (simp add: row_utilities_def is_matrix_length)



lemma np_max_nonempty: "v \<noteq> [] \<Longrightarrow> np_max v = Inr (Max (set v))"
  by (cases v) (simp_all add: np_max_def flip: Max.set_eq_fold)

lemma np_min_nonempty: "v \<noteq> [] \<Longrightarrow> np_min v = Inr (Min (set v))"
  by (cases v) (simp_all add: np_min_def flip: Min.set_eq_fold)






lemma analyze_envy_result:
  assumes "0 < length ru"
  shows "analyze_envy A U ru tol =
     Inr (envy_entries A U ru (length ru),
          Max (set (concat (envy_entries A U ru (length ru)))),
          Max (set (concat (envy_entries A U ru (length ru)))) \<le> tol,
          sort_key (\<lambda>(i, k, envy). - envy) (envious_pairs_unsorted A U ru tol (length ru)))"
proof -
  have "concat (envy_entries A U ru (length ru)) \<noteq> []"
    using assms by (cases "length ru") (auto simp: envy_entries_def upt_conv_Cons simp del: upt_Suc)
  then show ?thesis
    by (simp add: analyze_envy_def Let_def np_max_nonempty)
qed


lemma analyze_fairness_fields:
  assumes "analyze_fairness A U w tol = Inr r"
  shows "\<exists>E mx ef ps. analyze_envy A U (row_utilities A U) tol = Inr (E, mx, ef, ps)
           \<and> fr_envy_matrix r = E \<and> fr_max_envy r = mx \<and> fr_is_envy_free r = ef
           \<and> fr_envious_pairs r = ps"
    and "fr_utilities r = row_utilities A U"
    and "fr_is_pareto_efficient r
           = fst (check_pareto_efficiency_heuristic A U (row_utilities A U) tol)"
    and "fr_pareto_check_note r
           = snd (check_pareto_efficiency_heuristic A U (row_utilities A U) tol)"
    and "fr_proportionality_gaps r
           = map2 (\<lambda>u s. np_sub (Finite u) s) (row_utilities A U)
               (map (\<lambda>x. np_mul (np_div x (sum_list w)) (Finite (sum_list (row_utilities A U)))) w)"
  using assms
  by (auto simp: analyze_fairness_def Let_def split: sum.splits if_splits prod.splits)

lemma np_fmin_nonempty: "v \<noteq> [] \<Longrightarrow> \<exists>g. np_fmin v = Inr g"
  by (cases v) (simp_all add: np_fmin_def)

lemma analyze_fairness_returns:
  assumes "is_matrix n m A" and "is_matrix n m U" and "length w = n" and "0 < n"
  shows "\<exists>r. analyze_fairness A U w tol = Inr r"
proof -
  let ?ru = "row_utilities A U"
  let ?gaps = "map2 (\<lambda>u s. np_sub (Finite u) s) ?ru
                 (map (\<lambda>x. np_mul (np_div x (sum_list w)) (Finite (sum_list ?ru))) w)"
  have L: "length ?ru = n" using assms by (simp add: row_utilities_length)
  then have ne: "?ru \<noteq> []" using assms(4) by auto
  have E: "\<exists>x. analyze_envy A U ?ru tol = Inr x"
    using analyze_envy_result[of ?ru A U tol] L assms(4) by simp
  have "?gaps \<noteq> []"
    using L assms(3,4) by (cases ?ru; cases w) auto
  then have G: "\<exists>g. np_fmin ?gaps = Inr g"
    by (rule np_fmin_nonempty)
  from E G ne show ?thesis
    by (auto simp: analyze_fairness_def Let_def np_min_nonempty split: prod.splits)
qed




lemma pareto_find_k_Some:
  assumes "pareto_find_k A U tol j i = Some k"
  shows "k < n_agents_of A \<and> k \<noteq> i \<and> U ! k ! j > tol \<and> A ! k ! j < 1 - tol"
proof -
  from assms obtain p where "p < length [0..<n_agents_of A]"
    and "[0..<n_agents_of A] ! p = k"
    and "k \<noteq> i \<and> U ! k ! j > tol \<and> A ! k ! j < 1 - tol"
    unfolding pareto_find_k_def find_Some_iff by blast
  then show ?thesis by auto
qed

lemma pareto_scan_i_Some:
  "pareto_scan_i A U tol j is = Some (i, k) \<Longrightarrow>
     i \<in> set is \<and> A ! i ! j > tol \<and> U ! i ! j < tol \<and> pareto_find_k A U tol j i = Some k"
  by (induction "is") (auto split: if_splits option.splits)

lemma pareto_scan_j_Some:
  "pareto_scan_j A U tol js = Some (j, i, k) \<Longrightarrow>
     j \<in> set js \<and> pareto_scan_i A U tol j [0..<n_agents_of A] = Some (i, k)"
  by (induction js) (auto split: option.splits)

lemma heuristic_false_cases:
  assumes "fst (check_pareto_efficiency_heuristic A U ru tol) = False"
    and "np_allclose_scalar (col_sums A) 1 tol"
  shows "\<exists>j i k. pareto_scan_j A U tol [0..<n_goods_of A] = Some (j, i, k)
           \<and> snd (check_pareto_efficiency_heuristic A U ru tol) = Allocated_inefficiently j i k"
  using assms
  by (auto simp: check_pareto_efficiency_heuristic_def split: option.splits)

text \<open>
  C7: when the column sums of the allocation are all within \<open>tolerance\<close> of \<open>1\<close> and the
  report says \<open>is_pareto_efficient = false\<close>, there are agents \<open>i \<noteq> k\<close> and a good \<open>j\<close>
  with \<open>allocation[i,j] > tolerance\<close>, \<open>utilities[i,j] \<le> tolerance\<close>,
  \<open>utilities[k,j] > tolerance\<close> and \<open>allocation[k,j] < 1 - tolerance\<close>, and the note of the
  report names exactly these indices.
\<close>

theorem pareto_inefficiency_has_witness:
  assumes "is_matrix n m allocation" and "is_matrix n m utilities"
    and "\<forall>j<m. \<bar>sum_list (column allocation j) - 1\<bar> \<le> tolerance"
    and "analyze_fairness allocation utilities entitlements tolerance = Inr r"
    and "\<not> fr_is_pareto_efficient r"
  shows "\<exists>i<n. \<exists>k<n. \<exists>j<m. k \<noteq> i
           \<and> allocation ! i ! j > tolerance \<and> utilities ! i ! j \<le> tolerance
           \<and> utilities ! k ! j > tolerance \<and> allocation ! k ! j < 1 - tolerance
           \<and> fr_pareto_check_note r = Allocated_inefficiently j i k"
proof -
  let ?ru = "row_utilities allocation utilities"
  have G: "n_goods_of allocation = m" and N: "n_agents_of allocation = n"
    using assms(1) by (simp_all add: is_matrix_n_goods n_agents_of_def is_matrix_length)
  have close: "np_allclose_scalar (col_sums allocation) 1 tolerance"
    unfolding np_allclose_scalar_def col_sums_def np_isclose_def np_rtol_def list_all_iff G
    using assms(3) by (auto intro: order_trans)
  have F: "fst (check_pareto_efficiency_heuristic allocation utilities ?ru tolerance) = False"
    using analyze_fairness_fields(3)[OF assms(4)] assms(5) by simp
  from heuristic_false_cases[OF F close] obtain j i k where
    S: "pareto_scan_j allocation utilities tolerance [0..<m] = Some (j, i, k)"
    and nt: "snd (check_pareto_efficiency_heuristic allocation utilities ?ru tolerance)
                 = Allocated_inefficiently j i k"
    unfolding G by blast
  from pareto_scan_j_Some[OF S] have j: "j < m"
    and SI: "pareto_scan_i allocation utilities tolerance j [0..<n] = Some (i, k)"
    unfolding N by simp_all
  from pareto_scan_i_Some[OF SI] have i: "i < n"
    and c1: "allocation ! i ! j > tolerance" "utilities ! i ! j < tolerance"
    and FK: "pareto_find_k allocation utilities tolerance j i = Some k"
    by simp_all
  from pareto_find_k_Some[OF FK] have k: "k < n" "k \<noteq> i"
    and c2: "utilities ! k ! j > tolerance" "allocation ! k ! j < 1 - tolerance"
    unfolding N by simp_all
  have "fr_pareto_check_note r = Allocated_inefficiently j i k"
    using analyze_fairness_fields(4)[OF assms(4)] nt by simp
  with i j k c1 c2 show ?thesis
    by (intro exI[of _ i] exI[of _ k] exI[of _ j]) simp
qed

lemma sum_list_map2_diff:
  "length xs = length ys \<Longrightarrow> sum_list (map2 (-) xs ys) = sum_list xs - sum_list (ys :: real list)"
  by (induction xs ys rule: list_induct2) simp_all

lemma sum_list_shares:
  fixes w :: "real list"
  assumes "sum_list w \<noteq> 0"
  shows "sum_list (map (\<lambda>x. x / sum_list w * T) w) = T"
proof -
  have "sum_list (map (\<lambda>x. x / c * T) w) = sum_list w / c * T" for c
    by (induction w) (simp_all add: add_divide_distrib distrib_right)
  then show ?thesis using assms by simp
qed

lemma gaps_finite:
  assumes "S \<noteq> 0"
  shows "map2 (\<lambda>u s. np_sub (Finite u) s) ru (map (\<lambda>x. np_mul (np_div x S) (Finite T)) ws)
           = map Finite (map2 (-) ru (map (\<lambda>x. x / S * T) ws))"
  using assms
proof (induction ws arbitrary: ru)
  case Nil
  then show ?case by simp
next
  case (Cons x ws)
  then show ?case by (cases ru) (simp_all add: np_div_def np_sub_def)
qed

text \<open>
  The proportionality gaps in exact arithmetic. On arguments of matching shapes with at
  least one agent and entitlements whose sum is not zero, every gap is finite,
  \<open>gap\<^sub>i = U\<^sub>i - (w\<^sub>i / \<Sum>\<^sub>k w\<^sub>k) * \<Sum>\<^sub>k U\<^sub>k\<close>, and the gaps add up to \<open>0\<close>. This is the
  identity behind the tolerance that the specification allows for the sum (C8); how far
  the \<open>float64\<close> sum is from \<open>0\<close> is a matter of rounding, and is not stated here.
\<close>

lemma proportionality_gaps_exact:
  assumes "is_matrix n m allocation" and "is_matrix n m utilities"
    and "length entitlements = n" and "0 < n" and "sum_list entitlements \<noteq> 0"
  shows "\<exists>r g. analyze_fairness allocation utilities entitlements tolerance = Inr r
           \<and> fr_proportionality_gaps r = map Finite g
           \<and> length g = n
           \<and> (\<forall>i<n. g ! i = fr_utilities r ! i
                   - entitlements ! i / sum_list entitlements * sum_list (fr_utilities r))
           \<and> sum_list g = 0"
proof -
  let ?ru = "row_utilities allocation utilities"
  let ?sh = "map (\<lambda>x. x / sum_list entitlements * sum_list ?ru) entitlements"
  let ?g = "map2 (-) ?ru ?sh"
  from analyze_fairness_returns[OF assms(1,2,3,4)] obtain r where
    R: "analyze_fairness allocation utilities entitlements tolerance = Inr r" by blast
  have U: "fr_utilities r = ?ru"
    using analyze_fairness_fields(2)[OF R] by simp
  have Gp: "fr_proportionality_gaps r = map Finite ?g"
    using analyze_fairness_fields(5)[OF R] gaps_finite[OF assms(5)] by simp
  have L: "length ?ru = n" using assms by (simp add: row_utilities_length)
  have len: "length ?g = n" using L assms(3) by simp
  have gi: "\<forall>i<n. ?g ! i = fr_utilities r ! i
                   - entitlements ! i / sum_list entitlements * sum_list (fr_utilities r)"
    unfolding U using L assms(3) by simp
  have "sum_list ?g = sum_list ?ru - sum_list ?sh"
    using L assms(3) by (intro sum_list_map2_diff) simp
  also have "\<dots> = 0" using sum_list_shares[OF assms(5)] by simp
  finally have z: "sum_list ?g = 0" .
  show ?thesis
    apply (rule exI[of _ r])
    apply (rule exI[of _ ?g])
    apply (intro conjI)
    apply (rule R)
    apply (rule Gp)
    apply (rule len)
    apply (rule gi)
    apply (rule z)
    done
qed

text \<open>
  With entitlements that sum to zero the report is still produced, and its gaps are not
  finite.
\<close>

lemma proportionality_gaps_zero_sum_example:
  "map_sum id fr_proportionality_gaps (analyze_fairness [[1]] [[1]] [0] (1 / 10 ^ 6)) = Inr [NaN]"
  by (simp add: analyze_fairness_def Let_def row_utilities_def dot_def np_min_def
      analyze_envy_def envy_entries_def np_max_def np_div_def np_sub_def np_fmin_def
      split: prod.splits)




theorem pareto_inefficiency_has_witness_witness:
  "\<exists>r i k j. analyze_fairness [[1 / 2], [1 / 2]] [[0], [1]] [1, 1] (1 / 10 ^ 6) = Inr r
      \<and> i < 2 \<and> k < 2 \<and> j < 1 \<and> k \<noteq> i
      \<and> [[1 / 2], [1 / 2 :: real]] ! i ! j > 1 / 10 ^ 6 \<and> [[0], [1 :: real]] ! i ! j \<le> 1 / 10 ^ 6
      \<and> [[0], [1 :: real]] ! k ! j > 1 / 10 ^ 6 \<and> [[1 / 2], [1 / 2 :: real]] ! k ! j < 1 - 1 / 10 ^ 6
      \<and> fr_pareto_check_note r = Allocated_inefficiently j i k"
proof -
  obtain r where R: "analyze_fairness [[1 / 2], [1 / 2]] [[0], [1]] [1, 1] (1 / 10 ^ 6) = Inr r"
    using analyze_fairness_returns[of 2 1 "[[1 / 2], [1 / 2]]" "[[0], [1]]" "[1, 1]" "1 / 10 ^ 6"]
    by (auto simp: is_matrix_def)
  have P: "\<not> fr_is_pareto_efficient r"
    using analyze_fairness_fields(3)[OF R]
    by (simp add: check_pareto_efficiency_heuristic_def np_allclose_scalar_def col_sums_def
        column_def n_goods_of_def n_agents_of_def np_isclose_def np_rtol_def pareto_find_k_def)
  have "\<exists>i<2. \<exists>k<2. \<exists>j<1. k \<noteq> i
           \<and> [[1 / 2], [1 / 2 :: real]] ! i ! j > 1 / 10 ^ 6 \<and> [[0], [1 :: real]] ! i ! j \<le> 1 / 10 ^ 6
           \<and> [[0], [1 :: real]] ! k ! j > 1 / 10 ^ 6 \<and> [[1 / 2], [1 / 2 :: real]] ! k ! j < 1 - 1 / 10 ^ 6
           \<and> fr_pareto_check_note r = Allocated_inefficiently j i k"
    by (rule pareto_inefficiency_has_witness[OF _ _ _ R P])
       (simp_all add: is_matrix_def column_def)
  with R show ?thesis by blast
qed

section \<open>Properties: normalize\_allocation\<close>

lemma column_map_update_same:
  assumes "list_all (\<lambda>r. length r = m) A" and "j < m"
  shows "column (map (\<lambda>r. r[j := f r]) A) j = map f A"
  using assms by (induction A) (simp_all add: column_def)

lemma column_map_update_other:
  "j' \<noteq> j \<Longrightarrow> column (map (\<lambda>r. r[j := f r]) A) j' = column A j'"
  by (simp add: column_def)

lemma is_matrix_map_update:
  "is_matrix n m A \<Longrightarrow> is_matrix n m (map (\<lambda>r. r[j := f r]) A)"
  by (simp add: is_matrix_def list_all_iff)

lemma normalize_column_ok:
  assumes "is_matrix n m A" and "0 < n" and "0 \<le> tol" and "j < m"
  shows "\<exists>A'. normalize_column n tol A j = Inr A' \<and> is_matrix n m A'
           \<and> column A' j = normalized_column n tol (column A j)
           \<and> (\<forall>j'. j' \<noteq> j \<longrightarrow> column A' j' = column A j')"
proof -
  have rows: "list_all (\<lambda>r. length r = m) A" and len: "length A = n"
    using assms(1) by (simp_all add: is_matrix_def)
  let ?s = "sum_list (column A j)"
  show ?thesis
  proof (cases "\<bar>?s - 1\<bar> > tol")
    case False
    then show ?thesis using assms(1)
      by (simp add: normalize_column_def normalized_column_def Let_def)
  next
    case True
    show ?thesis
    proof (cases "?s > tol")
      case big: True
      then have nz: "?s \<noteq> 0" using assms(3) by auto
      have c: "column (map (\<lambda>r. r[j := r ! j / ?s]) A) j = map (\<lambda>x. x / ?s) (column A j)"
        using column_map_update_same[OF rows assms(4), of "\<lambda>r. r ! j / ?s"]
        by (simp add: column_def)
      show ?thesis using True big nz c assms(1)
        by (simp add: normalize_column_def normalized_column_def Let_def is_matrix_map_update
            column_map_update_other)
    next
      case small: False
      have c: "column (map (\<lambda>r. r[j := 1 / real n]) A) j = replicate n (1 / real n)"
        using column_map_update_same[OF rows assms(4), of "\<lambda>r. 1 / real n"] len
        by (simp add: map_replicate_const)
      show ?thesis using True small c assms(1,2)
        by (simp add: normalize_column_def normalized_column_def Let_def is_matrix_map_update
            column_map_update_other)
    qed
  qed
qed

lemma normalize_loop_ok:
  assumes "is_matrix n m (cells s b)" and "0 < n" and "0 \<le> tol"
    and "set js \<subseteq> {..<m}" and "distinct js"
  shows "\<exists>s'. normalize_loop s b n tol js = Inr s'
           \<and> is_matrix n m (cells s' b)
           \<and> next_addr s' = next_addr s
           \<and> (\<forall>a. a \<noteq> b \<longrightarrow> cells s' a = cells s a)
           \<and> (\<forall>j. column (cells s' b) j =
                 (if j \<in> set js then normalized_column n tol (column (cells s b) j)
                  else column (cells s b) j))"
  using assms
proof (induction js arbitrary: s)
  case Nil
  then show ?case by simp
next
  case (Cons j js)
  from Cons.prems have j: "j < m" and js: "set js \<subseteq> {..<m}" "distinct js" "j \<notin> set js"
    by auto
  from normalize_column_ok[OF Cons.prems(1,2,3) j] obtain A' where
    A': "normalize_column n tol (cells s b) j = Inr A'" "is_matrix n m A'"
      "column A' j = normalized_column n tol (column (cells s b) j)"
      "\<forall>j'. j' \<noteq> j \<longrightarrow> column A' j' = column (cells s b) j'"
    by blast
  let ?s1 = "s\<lparr>cells := (cells s)(b := A')\<rparr>"
  have m1: "is_matrix n m (cells ?s1 b)" using A'(2) by simp
  from Cons.IH[OF m1 Cons.prems(2,3) js(1,2)] obtain s' where
    s': "normalize_loop ?s1 b n tol js = Inr s'" "is_matrix n m (cells s' b)"
      "next_addr s' = next_addr ?s1"
      "\<forall>a. a \<noteq> b \<longrightarrow> cells s' a = cells ?s1 a"
      "\<forall>j'. column (cells s' b) j' =
                 (if j' \<in> set js then normalized_column n tol (column (cells ?s1 b) j')
                  else column (cells ?s1 b) j')"
    by blast
  have cols: "\<forall>j'. column (cells s' b) j' =
                 (if j' \<in> set (j # js) then normalized_column n tol (column (cells s b) j')
                  else column (cells s b) j')"
  proof
    fix j'
    show "column (cells s' b) j' =
                 (if j' \<in> set (j # js) then normalized_column n tol (column (cells s b) j')
                  else column (cells s b) j')"
    proof (cases "j' = j")
      case True
      then show ?thesis using s'(5) js(3) A'(3) by simp
    next
      case False
      then show ?thesis using s'(5) A'(4) by simp
    qed
  qed
  show ?case
    apply (rule exI[of _ s'])
    using A'(1) s'(1,2,3,4) cols by simp
qed

lemma sum_list_normalized_column:
  assumes "length c = n" and "0 < n" and "0 \<le> tol"
  shows "\<bar>sum_list (normalized_column n tol c) - 1\<bar> \<le> tol"
proof (cases "\<bar>sum_list c - 1\<bar> > tol")
  case False
  then show ?thesis by (simp add: normalized_column_def)
next
  case True
  show ?thesis
  proof (cases "sum_list c > tol")
    case big: True
    then have nz: "sum_list c \<noteq> 0" using assms(3) by auto
    have "sum_list (map (\<lambda>x. x / d) c) = sum_list c / d" for d
      by (induction c) (simp_all add: add_divide_distrib)
    then have "sum_list (map (\<lambda>x. x / sum_list c) c) = sum_list c / sum_list c" .
    then show ?thesis using True big nz assms(3) by (simp add: normalized_column_def)
  next
    case small: False
    have "sum_list (replicate n (1 / real n)) = 1"
      using assms(2) by (simp add: sum_list_replicate)
    then show ?thesis using True small assms(3) by (simp add: normalized_column_def)
  qed
qed


lemma column_length: "length (column A j) = length A"
  by (simp add: column_def)

text \<open>
  \<open>normalize_allocation\<close> in exact arithmetic, on the store. For a stored matrix with
  at least one agent and a tolerance between \<open>0\<close> and the default \<open>1e-9\<close>, the call returns
  a new array of the same shape in which every column is the normalised column of the
  input, every column sums to \<open>1\<close> within the tolerance, and the array at the argument's
  address is what it was. The bound that the specification puts on the column sums of
  the \<open>float64\<close> result (C10) depends on rounding and on overflow (a column whose sum
  overflows to \<open>inf\<close> is divided by \<open>inf\<close>), and is not stated here.
\<close>

lemma normalize_allocation_columns:
  assumes "is_matrix n m (cells s a)" and "0 < n" and "a < next_addr s"
    and "0 \<le> tolerance" and "tolerance \<le> 1 / 10 ^ 9"
  shows "\<exists>b s'. normalize_allocation s a tolerance = Inr (b, s')
           \<and> b \<noteq> a
           \<and> cells s' a = cells s a
           \<and> is_matrix n m (cells s' b)
           \<and> (\<forall>j<m. column (cells s' b) j = normalized_column n tolerance (column (cells s a) j))
           \<and> (\<forall>j<m. \<bar>sum_list (column (cells s' b) j) - 1\<bar> \<le> 1 / 10 ^ 9)"
proof -
  let ?b = "next_addr s"
  let ?s1 = "s\<lparr>cells := (cells s)(?b := cells s a), next_addr := Suc ?b\<rparr>"
  have cp: "np_copy s a = (?b, ?s1)" by (simp add: np_copy_def Let_def)
  have m1: "is_matrix n m (cells ?s1 ?b)" using assms(1) by simp
  have N: "n_agents_of (cells ?s1 ?b) = n" and G: "n_goods_of (cells ?s1 ?b) = m"
    using assms(1) by (simp_all add: n_agents_of_def is_matrix_length is_matrix_n_goods)
  have sub: "set [0..<m] \<subseteq> {..<m}" and dist: "distinct [0..<m]" by auto
  from normalize_loop_ok[OF m1 assms(2,4) sub dist] obtain s' where
    s': "normalize_loop ?s1 ?b n tolerance [0..<m] = Inr s'" "is_matrix n m (cells s' ?b)"
      "\<forall>a'. a' \<noteq> ?b \<longrightarrow> cells s' a' = cells ?s1 a'"
      "\<forall>j. column (cells s' ?b) j =
                 (if j \<in> set [0..<m] then normalized_column n tolerance (column (cells ?s1 ?b) j)
                  else column (cells ?s1 ?b) j)"
    by blast
  have ne: "?b \<noteq> a" using assms(3) by simp
  have res: "normalize_allocation s a tolerance = Inr (?b, s')"
    using s'(1) N G by (simp add: normalize_allocation_def cp Let_def)
  have same: "cells s' a = cells s a" using s'(3) ne by simp
  have cols: "\<forall>j<m. column (cells s' ?b) j = normalized_column n tolerance (column (cells s a) j)"
    using s'(4) by simp
  have sums: "\<forall>j<m. \<bar>sum_list (column (cells s' ?b) j) - 1\<bar> \<le> 1 / 10 ^ 9"
  proof (intro allI impI)
    fix j assume "j < m"
    then have "column (cells s' ?b) j = normalized_column n tolerance (column (cells s a) j)"
      using cols by simp
    moreover have "length (column (cells s a) j) = n"
      using assms(1) by (simp add: column_length is_matrix_length)
    ultimately have "\<bar>sum_list (column (cells s' ?b) j) - 1\<bar> \<le> tolerance"
      using sum_list_normalized_column[OF _ assms(2,4)] by simp
    then show "\<bar>sum_list (column (cells s' ?b) j) - 1\<bar> \<le> 1 / 10 ^ 9"
      using assms(5) by linarith
  qed
  show ?thesis
    apply (rule exI[of _ ?b])
    apply (rule exI[of _ s'])
    apply (intro conjI)
    apply (rule res)
    apply (rule ne)
    apply (rule same)
    apply (rule s'(2))
    apply (rule cols)
    apply (rule sums)
    done
qed

lemma normalize_allocation_columns_example:
  "\<exists>b s'. normalize_allocation \<lparr>cells = (\<lambda>a. if a = 0 then [[2, 0], [2, 0]] else []), next_addr = 1\<rparr>
              0 (1 / 10 ^ 9) = Inr (b, s')
           \<and> b \<noteq> 0
           \<and> cells s' 0 = cells \<lparr>cells = (\<lambda>a. if a = 0 then [[2, 0], [2, 0]] else []), next_addr = 1\<rparr> 0
           \<and> is_matrix 2 2 (cells s' b)
           \<and> (\<forall>j<2. column (cells s' b) j = normalized_column 2 (1 / 10 ^ 9)
                 (column (cells \<lparr>cells = (\<lambda>a. if a = 0 then [[2, 0], [2, 0]] else []), next_addr = 1\<rparr> 0) j))
           \<and> (\<forall>j<2. \<bar>sum_list (column (cells s' b) j) - 1\<bar> \<le> 1 / 10 ^ 9)"
  by (rule normalize_allocation_columns[where n = 2 and m = 2]) (simp_all add: is_matrix_def)

lemma normalize_allocation_example:
  "map_sum id (\<lambda>(b, s'). (b, cells s' b, cells s' 0))
     (normalize_allocation \<lparr>cells = (\<lambda>a. if a = 0 then [[2, 0], [2, 0]] else []), next_addr = 1\<rparr>
              0 (1 / 10 ^ 9))
   = Inr (1, [[1 / 2, 1 / 2], [1 / 2, 1 / 2]], [[2, 0], [2, 0]])"
  by (simp add: normalize_allocation_def np_copy_def Let_def n_agents_of_def n_goods_of_def
      normalize_column_def column_def)

end
